theory Spec2Isabelle
  imports Complex_Main "HOL-Library.Multiset" "HOL-Library.Product_Lexorder"
begin

section \<open>Python values, errors and string helpers\<close>

text \<open>
  A Python float is an exact rational, an infinity or NaN; rounding to binary doubles and
  overflow are not part of the model.
\<close>

datatype pyfloat = Finite rat | PosInf | NegInf | NaN

text \<open>
  The extractors work on decoded JSON and build result dictionaries. Both are values of
  one type: \<open>PDict\<close> is a dictionary with string keys, as an association list in
  insertion order (the first binding of a key is the one that counts).
\<close>

datatype pyval =
    PNone
  | PBool bool
  | PInt int
  | PFloat pyfloat
  | PStr string
  | PList "pyval list"
  | PDict "(string \<times> pyval) list"

text \<open>
  Exceptions are values. \<open>GeoRestrictedError\<close> carries its list of countries;
  \<open>GeoRestrictedError\<close> and \<open>RegexNotFoundError\<close> are subclasses of
  \<open>ExtractorError\<close>, which \<open>is_ExtractorError\<close> records for the
  \<open>except ExtractorError\<close> clauses.
\<close>

datatype error =
    ExtractorError string
  | GeoRestrictedError "string list"
  | RegexNotFoundError string
  | KeyError string
  | TypeError
  | ValueError
  | AttributeError
  | IndexError
  | AssertionError
  | OverflowError

text \<open>Running one step after another: the first exception ends the sequence.\<close>

fun and_then :: "error + 'a \<Rightarrow> ('a \<Rightarrow> error + 'b) \<Rightarrow> error + 'b" where
  "and_then (Inl e) f = Inl e"
| "and_then (Inr x) f = f x"

fun map_err :: "('a \<Rightarrow> error + 'b) \<Rightarrow> 'a list \<Rightarrow> error + 'b list" where
  "map_err f [] = Inr []"
| "map_err f (x # xs) = and_then (f x) (\<lambda>y. and_then (map_err f xs) (\<lambda>ys. Inr (y # ys)))"

fun is_ExtractorError :: "error \<Rightarrow> bool" where
  "is_ExtractorError (ExtractorError m) = True"
| "is_ExtractorError (GeoRestrictedError cs) = True"
| "is_ExtractorError (RegexNotFoundError n) = True"
| "is_ExtractorError e = False"

fun is_GeoRestrictedError :: "error \<Rightarrow> bool" where
  "is_GeoRestrictedError (GeoRestrictedError cs) = True"
| "is_GeoRestrictedError e = False"

text \<open>Python truthiness, as used by \<open>if x\<close> and \<open>if not x\<close>.\<close>

fun truthy :: "pyval \<Rightarrow> bool" where
  "truthy PNone = False"
| "truthy (PBool b) = b"
| "truthy (PInt i) = (i \<noteq> 0)"
| "truthy (PFloat r) = (r \<noteq> Finite 0)"
| "truthy (PStr s) = (s \<noteq> [])"
| "truthy (PList xs) = (xs \<noteq> [])"
| "truthy (PDict kvs) = (kvs \<noteq> [])"

text \<open>\<open>d.get(k)\<close>: \<open>None\<close> for a missing key, AttributeError when \<open>d\<close> is no dictionary.\<close>

fun py_get :: "pyval \<Rightarrow> string \<Rightarrow> error + pyval" where
  "py_get (PDict kvs) k = (case map_of kvs k of None \<Rightarrow> Inr PNone | Some v \<Rightarrow> Inr v)"
| "py_get v k = Inl AttributeError"

text \<open>The value \<open>d.get(k)\<close> of a dictionary given by its bindings.\<close>

definition get_or_none :: "(string \<times> pyval) list \<Rightarrow> string \<Rightarrow> pyval" where
  "get_or_none kvs k = (case map_of kvs k of None \<Rightarrow> PNone | Some v \<Rightarrow> v)"

text \<open>\<open>d[k]\<close> with a string key: KeyError for a missing key, TypeError when \<open>d\<close> is no
  dictionary.\<close>

fun py_getitem :: "pyval \<Rightarrow> string \<Rightarrow> error + pyval" where
  "py_getitem (PDict kvs) k = (case map_of kvs k of None \<Rightarrow> Inl (KeyError k) | Some v \<Rightarrow> Inr v)"
| "py_getitem v k = Inl TypeError"

text \<open>\<open>a + b\<close> where \<open>a\<close> is a string literal: TypeError unless \<open>b\<close> is a string.\<close>

fun str_concat :: "string \<Rightarrow> pyval \<Rightarrow> error + string" where
  "str_concat a (PStr b) = Inr (a @ b)"
| "str_concat a v = Inl TypeError"

text \<open>\<open>a + b\<close> where \<open>b\<close> is a string literal.\<close>

fun concat_lit :: "pyval \<Rightarrow> string \<Rightarrow> error + string" where
  "concat_lit (PStr a) b = Inr (a @ b)"
| "concat_lit v b = Inl TypeError"

definition opt_str :: "string option \<Rightarrow> pyval" where
  "opt_str v = (case v of None \<Rightarrow> PNone | Some s \<Rightarrow> PStr s)"

definition opt_int :: "int option \<Rightarrow> pyval" where
  "opt_int v = (case v of None \<Rightarrow> PNone | Some i \<Rightarrow> PInt i)"

definition opt_bool :: "bool option \<Rightarrow> pyval" where
  "opt_bool b = (case b of None \<Rightarrow> PNone | Some v \<Rightarrow> PBool v)"

definition opt_float :: "pyfloat option \<Rightarrow> pyval" where
  "opt_float d = (case d of None \<Rightarrow> PNone | Some v \<Rightarrow> PFloat v)"

text \<open>\<open>d.update(e)\<close>: a key of \<open>e\<close> that \<open>d\<close> has keeps its place and takes the new
  value, a new key is added at the end.\<close>

fun dict_set :: "(string \<times> pyval) list \<Rightarrow> string \<Rightarrow> pyval \<Rightarrow> (string \<times> pyval) list" where
  "dict_set [] k v = [(k, v)]"
| "dict_set ((k', v') # kvs) k v = (if k' = k then (k, v) # kvs else (k', v') # dict_set kvs k v)"

definition dict_update :: "(string \<times> pyval) list \<Rightarrow> (string \<times> pyval) list \<Rightarrow> (string \<times> pyval) list" where
  "dict_update d e = foldl (\<lambda>acc (k, v). dict_set acc k v) d e"

fun startswith :: "string \<Rightarrow> string \<Rightarrow> bool" where
  "startswith [] s = True"
| "startswith (p # ps) [] = False"
| "startswith (p # ps) (c # cs) = (p = c \<and> startswith ps cs)"

text \<open>\<open>sub in s\<close> for strings.\<close>

fun is_substr :: "string \<Rightarrow> string \<Rightarrow> bool" where
  "is_substr sub [] = (sub = [])"
| "is_substr sub (c # cs) = (startswith sub (c # cs) \<or> is_substr sub cs)"

text \<open>
  \<open>s.replace(old, new)\<close> for a non-empty \<open>old\<close>: the occurrences are replaced from the
  left and do not overlap. \<open>skip\<close> counts the characters of a matched occurrence that are
  still to be dropped.
\<close>

fun replace_from :: "string \<Rightarrow> string \<Rightarrow> nat \<Rightarrow> string \<Rightarrow> string" where
  "replace_from old new skip [] = []"
| "replace_from old new (Suc k) (c # cs) = replace_from old new k cs"
| "replace_from old new 0 (c # cs) =
     (if startswith old (c # cs) then new @ replace_from old new (length old - 1) cs
      else c # replace_from old new 0 cs)"

definition py_replace :: "string \<Rightarrow> string \<Rightarrow> string \<Rightarrow> string" where
  "py_replace old new s = replace_from old new 0 s"

text \<open>\<open>'%d' % n\<close>: the decimal digits of an integer.\<close>

definition digit_char :: "nat \<Rightarrow> char" where
  "digit_char n = ''0123456789'' ! n"

function digits_of_nat :: "nat \<Rightarrow> string" where
  "digits_of_nat n =
     (if n < 10 then [digit_char n]
      else digits_of_nat (n div 10) @ [digit_char (n mod 10)])"
  by pat_completeness auto
termination
  by (relation "measure (\<lambda>n. n)") auto

declare digits_of_nat.simps [simp del]

definition str_of_int :: "int \<Rightarrow> string" where
  "str_of_int i =
     (if i < 0 then CHR ''-'' # digits_of_nat (nat (- i)) else digits_of_nat (nat i))"

text \<open>\<open>sep.join(parts)\<close>.\<close>

fun py_join :: "string \<Rightarrow> string list \<Rightarrow> string" where
  "py_join sep [] = []"
| "py_join sep [p] = p"
| "py_join sep (p # q # ps) = p @ sep @ py_join sep (q # ps)"

text \<open>\<open>s.split(sep)\<close> for a one-character separator.\<close>

fun split_on :: "char \<Rightarrow> string \<Rightarrow> string list" where
  "split_on sep [] = [[]]"
| "split_on sep (c # cs) =
     (if c = sep then [] # split_on sep cs
      else (case split_on sep cs of [] \<Rightarrow> [[c]] | p # ps \<Rightarrow> (c # p) # ps))"

text \<open>\<open>s.rpartition(sep)[0]\<close>: the text before the last separator, empty when there is
  none.\<close>

definition rpartition_head :: "char \<Rightarrow> string \<Rightarrow> string" where
  "rpartition_head sep s =
     (if sep \<in> set s then rev (tl (dropWhile (\<lambda>c. c \<noteq> sep) (rev s))) else [])"

text \<open>\<open>s.lower()\<close> on one ASCII character.\<close>

definition to_lower :: "char \<Rightarrow> char" where
  "to_lower c =
     (case map_of (zip ''ABCDEFGHIJKLMNOPQRSTUVWXYZ'' ''abcdefghijklmnopqrstuvwxyz'') c of
        None \<Rightarrow> c
      | Some l \<Rightarrow> l)"

section \<open>Regular expressions of the URL patterns\<close>

text \<open>
  The constructs the patterns of the extractors use: literals, \<open>(?:r)?\<close>, alternation,
  sequence, greedy repetition of a character class (\<open>[c]+\<close>, \<open>[c]*\<close>, \<open>[c]{n}\<close>,
  \<open>[c]{m,n}\<close>), the lazy \<open>[c]*?\<close> and groups. \<open>rx_match r s\<close> lists, in the
  order a backtracking matcher tries them, every way \<open>r\<close> can match a prefix of \<open>s\<close>:
  the rest of the input and the groups bound on the way. Characters are bytes, so \<open>\d\<close>
  is an ASCII digit.
\<close>

datatype rx =
    Lit string
  | Opt rx
  | Alt rx rx
  | Seq rx rx
  | Many nat "nat option" "char \<Rightarrow> bool"
  | Lazy "char \<Rightarrow> bool"
  | Group string rx

abbreviation Plus :: "(char \<Rightarrow> bool) \<Rightarrow> rx" where
  "Plus P \<equiv> Many 1 None P"

abbreviation Star :: "(char \<Rightarrow> bool) \<Rightarrow> rx" where
  "Star P \<equiv> Many 0 None P"

abbreviation Rep :: "nat \<Rightarrow> (char \<Rightarrow> bool) \<Rightarrow> rx" where
  "Rep n P \<equiv> Many n (Some n) P"

fun rx_match :: "rx \<Rightarrow> string \<Rightarrow> (string \<times> (string \<times> string) list) list" where
  "rx_match (Lit l) s = (if startswith l s then [(drop (length l) s, [])] else [])"
| "rx_match (Opt r) s = rx_match r s @ [(s, [])]"
| "rx_match (Alt a b) s = rx_match a s @ rx_match b s"
| "rx_match (Seq a b) s =
     concat (map (\<lambda>(rest, g). map (\<lambda>(rest', g'). (rest', g @ g')) (rx_match b rest))
               (rx_match a s))"
| "rx_match (Many lo hi P) s =
     (let n = length (takeWhile P s);
          top = (case hi of None \<Rightarrow> n | Some h \<Rightarrow> min h n)
      in map (\<lambda>k. (drop k s, [])) (rev [lo ..< Suc top]))"
| "rx_match (Lazy P) s =
     map (\<lambda>k. (drop k s, [])) [0 ..< Suc (length (takeWhile P s))]"
| "rx_match (Group name r) s =
     map (\<lambda>(rest, g). (rest, (name, take (length s - length rest) s) # g)) (rx_match r s)"

text \<open>\<open>re.match(pattern, s)\<close>: the first way to match at the start of \<open>s\<close>, or \<open>None\<close>.\<close>

definition re_match :: "rx \<Rightarrow> string \<Rightarrow> (string \<times> string) list option" where
  "re_match r s = (case rx_match r s of [] \<Rightarrow> None | (rest, g) # _ \<Rightarrow> Some g)"

text \<open>\<open>mobj.group(name)\<close>; on \<open>None\<close> (no match) the attribute access fails.\<close>

definition mobj_group :: "(string \<times> string) list option \<Rightarrow> string \<Rightarrow> error + string" where
  "mobj_group mobj name =
     (case mobj of
        None \<Rightarrow> Inl AttributeError
      | Some g \<Rightarrow> (case map_of g name of None \<Rightarrow> Inl IndexError | Some v \<Rightarrow> Inr v))"

text \<open>\<open>re.search(pattern, s)\<close>: the first match at the leftmost position that has one.\<close>

fun re_search :: "rx \<Rightarrow> string \<Rightarrow> (string \<times> string) list option" where
  "re_search r [] = re_match r []"
| "re_search r (c # cs) =
     (case re_match r (c # cs) of Some g \<Rightarrow> Some g | None \<Rightarrow> re_search r cs)"

definition is_digit :: "char \<Rightarrow> bool" where
  "is_digit c = (c \<in> set ''0123456789'')"

definition not_slash :: "char \<Rightarrow> bool" where
  "not_slash c = (c \<noteq> CHR ''/'')"

definition is_hex_upper :: "char \<Rightarrow> bool" where
  "is_hex_upper c = (is_digit c \<or> c \<in> set ''ABCDEF'')"

definition is_lower :: "char \<Rightarrow> bool" where
  "is_lower c = (c \<in> set ''abcdefghijklmnopqrstuvwxyz'')"

definition is_alpha :: "char \<Rightarrow> bool" where
  "is_alpha c = (is_lower c \<or> c \<in> set ''ABCDEFGHIJKLMNOPQRSTUVWXYZ'')"

text \<open>\<open>LivestreamfailsIE._VALID_URL\<close>:
  \<^verbatim>\<open>https?://(?:www\.)?livestreamfails\.com/clip/(?P<id>[0-9]+)\<close>\<close>

definition Livestreamfails_VALID_URL :: rx where
  "Livestreamfails_VALID_URL =
     Seq (Lit ''http'') (Seq (Opt (Lit ''s'')) (Seq (Lit ''://'') (Seq (Opt (Lit ''www.''))
       (Seq (Lit ''livestreamfails.com/clip/'') (Group ''id'' (Plus is_digit))))))"

text \<open>\<open>AppleTrailersIE._VALID_URL\<close>:
  \<^verbatim>\<open>https?://(?:www\.)?trailers\.apple\.com/(?:trailers|ca)/(?P<company>[^/]+)/(?P<movie>[^/]+)\<close>\<close>

definition AppleTrailers_VALID_URL :: rx where
  "AppleTrailers_VALID_URL =
     Seq (Lit ''http'') (Seq (Opt (Lit ''s'')) (Seq (Lit ''://'') (Seq (Opt (Lit ''www.''))
       (Seq (Lit ''trailers.apple.com/'') (Seq (Alt (Lit ''trailers'') (Lit ''ca''))
         (Seq (Lit ''/'') (Seq (Group ''company'' (Plus not_slash))
           (Seq (Lit ''/'') (Group ''movie'' (Plus not_slash))))))))))"

text \<open>\<open>NRKIE._VALID_URL\<close>:
  \<^verbatim>\<open>http://(?:www\.)?nrk\.no/(?:video|lyd)/[^/]+/(?P<id>[\dA-F]{16})\<close>\<close>

definition NRK_VALID_URL :: rx where
  "NRK_VALID_URL =
     Seq (Lit ''http://'') (Seq (Opt (Lit ''www.'')) (Seq (Lit ''nrk.no/'')
       (Seq (Alt (Lit ''video'') (Lit ''lyd'')) (Seq (Lit ''/'') (Seq (Plus not_slash)
         (Seq (Lit ''/'') (Group ''id'' (Rep 16 is_hex_upper))))))))"

text \<open>\<open>NRKTVIE._VALID_URL\<close>:
  \<^verbatim>\<open>(?P<baseurl>http://tv\.nrk(?:super)?\.no)/(?:serie/[^/]+|program)/(?P<id>[a-zA-Z]{4}\d{8})\<close>\<close>

definition NRKTV_VALID_URL :: rx where
  "NRKTV_VALID_URL =
     Seq (Group ''baseurl'' (Seq (Lit ''http://tv.nrk'') (Seq (Opt (Lit ''super'')) (Lit ''.no''))))
       (Seq (Lit ''/'') (Seq (Alt (Seq (Lit ''serie/'') (Plus not_slash)) (Lit ''program''))
         (Seq (Lit ''/'') (Group ''id'' (Seq (Rep 4 is_alpha) (Rep 8 is_digit))))))"

text \<open>\<open>ErtflixIE._VALID_URL\<close>:
  \<^verbatim>\<open>https?://www\.ertflix\.gr/(?:series|vod)/(?P<id>[a-z]{3}\.\d+)\<close>\<close>

definition Ertflix_VALID_URL :: rx where
  "Ertflix_VALID_URL =
     Seq (Lit ''http'') (Seq (Opt (Lit ''s'')) (Seq (Lit ''://www.ertflix.gr/'')
       (Seq (Alt (Lit ''series'') (Lit ''vod'')) (Seq (Lit ''/'')
         (Group ''id'' (Seq (Rep 3 is_lower) (Seq (Lit ''.'') (Plus is_digit))))))))"

section \<open>Python's \<open>int()\<close> and \<open>float()\<close> on strings\<close>

definition is_space :: "char \<Rightarrow> bool" where
  "is_space c = (c \<in> set [CHR '' '', CHR 0x09, CHR ''\<newline>'', CHR 0x0B, CHR 0x0C, CHR 0x0D,
                           CHR 0x1C, CHR 0x1D, CHR 0x1E, CHR 0x1F])"

definition strip :: "string \<Rightarrow> string" where
  "strip s = rev (dropWhile is_space (rev (dropWhile is_space s)))"

text \<open>
  A digit part: decimal digits, with single underscores allowed between two digits
  (Python 3.6 and later). The result is the digits with the underscores removed.
\<close>

fun digitpart :: "string \<Rightarrow> string option" where
  "digitpart [] = None"
| "digitpart [c] = (if is_digit c then Some [c] else None)"
| "digitpart (c # d # rest) =
     (if \<not> is_digit c then None
      else if d = CHR ''_'' then map_option (Cons c) (digitpart rest)
      else map_option (Cons c) (digitpart (d # rest)))"

definition digit_val :: "char \<Rightarrow> nat" where
  "digit_val c = of_char c - 48"

definition nat_of_digits :: "string \<Rightarrow> nat" where
  "nat_of_digits ds = foldl (\<lambda>a c. 10 * a + digit_val c) 0 ds"

text \<open>An optional sign in front: \<open>True\<close> for \<open>-\<close>.\<close>

definition split_sign :: "string \<Rightarrow> bool \<times> string" where
  "split_sign s =
     (case s of
        [] \<Rightarrow> (False, [])
      | c # cs \<Rightarrow> if c = CHR ''-'' then (True, cs) else if c = CHR ''+'' then (False, cs)
                 else (False, s))"

text \<open>\<open>int(s)\<close>: \<open>None\<close> stands for ValueError.\<close>

definition py_int :: "string \<Rightarrow> int option" where
  "py_int s =
     (case split_sign (strip s) of
        (neg, body) \<Rightarrow>
          (case digitpart body of
             None \<Rightarrow> None
           | Some ds \<Rightarrow> Some (if neg then - int (nat_of_digits ds) else int (nat_of_digits ds))))"

text \<open>The text before and after the first occurrence of a character satisfying \<open>P\<close>.\<close>

definition cut_at :: "(char \<Rightarrow> bool) \<Rightarrow> string \<Rightarrow> string \<times> string option" where
  "cut_at P s =
     (case dropWhile (\<lambda>c. \<not> P c) s of
        [] \<Rightarrow> (s, None)
      | c # rest \<Rightarrow> (takeWhile (\<lambda>c. \<not> P c) s, Some rest))"

text \<open>
  The mantissa \<open>digitpart? . digitpart | digitpart . | digitpart\<close>: its value.
\<close>

definition mantissa :: "string \<Rightarrow> rat option" where
  "mantissa m =
     (case cut_at (\<lambda>c. c = CHR ''.'') m of
        (ip, None) \<Rightarrow> map_option (\<lambda>ds. of_nat (nat_of_digits ds)) (digitpart ip)
      | (ip, Some fp) \<Rightarrow>
          if ip = [] \<and> fp = [] then None
          else
            (case (if ip = [] then Some [] else digitpart ip,
                   if fp = [] then Some [] else digitpart fp) of
               (Some ids, Some fds) \<Rightarrow>
                 Some (of_nat (nat_of_digits ids) + of_nat (nat_of_digits fds) / 10 ^ length fds)
             | _ \<Rightarrow> None))"

definition exponent :: "string \<Rightarrow> int option" where
  "exponent e =
     (case split_sign e of
        (neg, body) \<Rightarrow>
          map_option (\<lambda>ds. if neg then - int (nat_of_digits ds) else int (nat_of_digits ds))
            (digitpart body))"

definition scale10 :: "rat \<Rightarrow> int \<Rightarrow> rat" where
  "scale10 x e = (if e < 0 then x / 10 ^ nat (- e) else x * 10 ^ nat e)"

definition decimal :: "string \<Rightarrow> rat option" where
  "decimal body =
     (case cut_at (\<lambda>c. c = CHR ''e'' \<or> c = CHR ''E'') body of
        (m, None) \<Rightarrow> mantissa m
      | (m, Some e) \<Rightarrow>
          (case (mantissa m, exponent e) of
             (Some x, Some k) \<Rightarrow> Some (scale10 x k)
           | _ \<Rightarrow> None))"

text \<open>\<open>float(s)\<close>: \<open>None\<close> stands for ValueError.\<close>

definition py_float :: "string \<Rightarrow> pyfloat option" where
  "py_float s =
     (case split_sign (strip s) of
        (neg, body) \<Rightarrow>
          if map to_lower body = ''inf'' \<or> map to_lower body = ''infinity''
          then Some (if neg then NegInf else PosInf)
          else if map to_lower body = ''nan'' then Some NaN
          else map_option (\<lambda>x. Finite (if neg then - x else x)) (decimal body))"

text \<open>\<open>n + x\<close> for an int \<open>n\<close> and a float \<open>x\<close>, and \<open>x + y\<close> for two floats.\<close>

fun int_plus_float :: "int \<Rightarrow> pyfloat \<Rightarrow> pyfloat" where
  "int_plus_float n (Finite x) = Finite (of_int n + x)"
| "int_plus_float n x = x"

fun float_plus :: "pyfloat \<Rightarrow> pyfloat \<Rightarrow> pyfloat" where
  "float_plus (Finite x) (Finite y) = Finite (x + y)"
| "float_plus NaN y = NaN"
| "float_plus x NaN = NaN"
| "float_plus PosInf NegInf = NaN"
| "float_plus NegInf PosInf = NaN"
| "float_plus (Finite x) y = y"
| "float_plus x y = x"

section \<open>The host framework\<close>

text \<open>
  What \<open>_extract_relinker_info\<close> reads from one relinker XML document:
  \<open>xpath_text\<close> of \<open>./geoprotection\<close>, \<open>./is_live\<close>, \<open>./duration\<close> and \<open>bitrate\<close>
  (\<open>None\<close> when absent), and the \<open>./url\<close> element with \<open>type="content"\<close>: \<open>None\<close> when
  there is no such element, otherwise its text, itself \<open>None\<close> for an empty element.
\<close>

record relinker_xml =
  geoprotection_text :: "string option"
  is_live_text :: "string option"
  duration_text :: "string option"
  url_elem :: "string option option"
  bitrate_text :: "string option"

text \<open>
  An NRK caption document: the \<open>lang\<close> attribute of the root and, for each \<open>p\<close> element
  of the body, its \<open>begin\<close> and \<open>dur\<close> attributes and the pieces of \<open>itertext()\<close>.
\<close>

record caption_p =
  p_begin :: "string option"
  p_dur :: "string option"
  p_itertext :: "string list"

record captions_xml =
  lang_attr :: "string option"
  p_elems :: "caption_p list"

text \<open>
  An \<open>li\<close> element of the Apple Trailers playlist document, as far as the extractor
  reads it: \<open>li.find('.//a')\<close> and its \<open>onClick\<close> attribute, \<open>li.find('.//img')\<close> and its
  \<open>src\<close> attribute. The outer \<open>None\<close> is a missing element, the inner one a missing
  attribute.
\<close>

record li_elem =
  a_onClick :: "string option option"
  img_src :: "string option option"

text \<open>
  The fetchers and helpers of \<open>common.py\<close>, \<open>utils.py\<close> and \<open>compat.py\<close>, which are
  not among the sources: every extractor below takes them as the parameter \<open>h\<close>.
  The fetchers return what the server sent, already decoded, or the exception they
  raise. \<open>download_xml\<close> is the relinker fetch for one platform; the two manifest
  extractors are called with \<open>fatal=False\<close> and return a list of format dictionaries,
  possibly empty. The three \<open>search_\<close> fields are the \<open>_search_regex\<close> calls of
  \<open>RaiIE._real_extract\<close> whose patterns use back-references. \<open>set_iter\<close> is the
  order in which Python iterates over a set into which the given strings were inserted;
  the language does not fix it. \<open>listsubtitles\<close> is the downloader parameter of that
  name.
\<close>

record host =
  download_webpage :: "string \<Rightarrow> error + string"
  download_json :: "string \<Rightarrow> error + pyval"
  json_loads :: "string \<Rightarrow> error + pyval"
  download_xml :: "string \<Rightarrow> string \<Rightarrow> error + relinker_xml"
  download_captions :: "string \<Rightarrow> error + captions_xml"
  download_playlist :: "string \<Rightarrow> error + li_elem list"
  extract_m3u8_formats :: "string \<Rightarrow> pyval list"
  extract_f4m_formats :: "string \<Rightarrow> pyval list"
  html_search_meta :: "string list \<Rightarrow> string \<Rightarrow> string option"
  og_search_title :: "string \<Rightarrow> error + string"
  search_content_item_id :: "string \<Rightarrow> string option"
  search_relinker_url :: "string \<Rightarrow> string option"
  search_video_title :: "string \<Rightarrow> string option"
  proto_relative_url :: "string \<Rightarrow> string"
  clean_html :: "string \<Rightarrow> string"
  parse_duration :: "pyval \<Rightarrow> pyfloat option"
  determine_ext :: "pyval \<Rightarrow> string \<Rightarrow> string"
  int_or_none :: "pyval \<Rightarrow> int option"
  float_or_none :: "pyval \<Rightarrow> pyfloat option"
  unified_strdate :: "pyval \<Rightarrow> string option"
  strip_or_none :: "pyval \<Rightarrow> pyval"
  update_url_query :: "string \<Rightarrow> (string \<times> string) list \<Rightarrow> string"
  urljoin :: "string \<Rightarrow> pyval \<Rightarrow> pyval"
  compat_urljoin :: "string \<Rightarrow> string \<Rightarrow> string"
  format_preference :: "pyval \<Rightarrow> int"
  set_iter :: "string list \<Rightarrow> string list"
  listsubtitles :: bool

text \<open>
  Modelled from the spec: \<open>raise_geo_restricted\<close> of \<open>common.py\<close>, which is
  not among the sources. It raises the geo-restricted error carrying the
  allowed-country list it is given.
\<close>

definition raise_geo_restricted :: "string list \<Rightarrow> error" where
  "raise_geo_restricted countries = GeoRestrictedError countries"

text \<open>
  Modelled from the spec: \<open>_match_id\<close> of \<open>common.py\<close>, which is not among the
  sources. It matches the URL against the extractor's pattern and returns the group
  \<open>id\<close>; extraction of the group after a failed match is fatal.
\<close>

definition match_id :: "rx \<Rightarrow> string \<Rightarrow> error + string" where
  "match_id valid_url url =
     (case re_match valid_url url of
        None \<Rightarrow> Inl AssertionError
      | Some g \<Rightarrow> mobj_group (Some g) ''id'')"

text \<open>
  Modelled from the spec: \<open>_search_regex\<close> and \<open>_html_search_regex\<close> of
  \<open>common.py\<close>, which are not among the sources, for a pattern with one group
  (named \<open>1\<close> here). A search that finds nothing yields the absent value; \<open>required\<close>
  is the default \<open>fatal=True\<close>, which turns the absent value into the not-found error.
  \<open>_html_search_regex\<close> cleans the text it found.
\<close>

definition search_regex :: "rx \<Rightarrow> string \<Rightarrow> string option" where
  "search_regex r s = (case re_search r s of None \<Rightarrow> None | Some g \<Rightarrow> map_of g ''1'')"

definition html_search_regex :: "host \<Rightarrow> rx \<Rightarrow> string \<Rightarrow> string option" where
  "html_search_regex h r s = map_option (clean_html h) (search_regex r s)"

definition required :: "string \<Rightarrow> 'a option \<Rightarrow> error + 'a" where
  "required name v = (case v of None \<Rightarrow> Inl (RegexNotFoundError name) | Some x \<Rightarrow> Inr x)"

text \<open>
  Modelled from the spec: \<open>_sort_formats\<close> of \<open>common.py\<close>, which is not among
  the sources. The candidates are ordered by resolution and bitrate first (\<open>height\<close>,
  \<open>width\<close>, \<open>tbr\<close>; a missing or non-integer value counts as \<open>-1\<close>), then by the
  host's format and container preference; the sort is stable, so candidates with equal
  keys keep their input order. The spec does not say at which end the preferred
  candidate stands; here the keys ascend.
\<close>

definition num_field :: "pyval \<Rightarrow> string \<Rightarrow> int" where
  "num_field f k = (case py_get f k of Inr (PInt i) \<Rightarrow> i | _ \<Rightarrow> - 1)"

definition format_key :: "(pyval \<Rightarrow> int) \<Rightarrow> pyval \<Rightarrow> (int \<times> int \<times> int) \<times> int" where
  "format_key pref f = ((num_field f ''height'', num_field f ''width'', num_field f ''tbr''), pref f)"

definition sort_formats :: "(pyval \<Rightarrow> int) \<Rightarrow> pyval list \<Rightarrow> pyval list" where
  "sort_formats pref fs = sort_key (format_key pref) fs"

section \<open>rai.py: the relinker\<close>

definition GEO_COUNTRIES :: "string list" where
  "GEO_COUNTRIES = [''IT'']"

record relinker_state =
  formats :: "pyval list"
  geoprotection :: "bool option"
  is_live :: "bool option"
  duration :: "pyfloat option"

definition relinker_init :: relinker_state where
  "relinker_init = \<lparr>formats = [], geoprotection = None, is_live = None, duration = None\<rparr>"

text \<open>\<open>not b\<close> for a variable that is \<open>None\<close> or a bool, and for an optional float.\<close>

definition not_flag :: "bool option \<Rightarrow> bool" where
  "not_flag b = (b \<noteq> Some True)"

definition not_duration :: "pyfloat option \<Rightarrow> bool" where
  "not_duration d = (d = None \<or> d = Some (Finite 0))"

text \<open>
  The \<open>http\<close> candidate of the last branch. \<open>bitrate > 0\<close> on \<open>None\<close> is a TypeError
  (Python 3).
\<close>

definition http_format :: "string \<Rightarrow> int option \<Rightarrow> error + pyval" where
  "http_format media_url bitrate =
     (case bitrate of
        None \<Rightarrow> Inl TypeError
      | Some b \<Rightarrow> Inr (PDict
          [(''url'', PStr media_url),
           (''tbr'', if b > 0 then PInt b else PNone),
           (''format_id'', PStr (if b > 0 then ''http-'' @ str_of_int b else ''http''))]))"

text \<open>
  One iteration of the loop over the platforms, after the document was fetched, in two
  parts. First the three flags: each is read from the document unless an earlier
  platform already gave a truthy value.
\<close>

definition relinker_flags :: "host \<Rightarrow> relinker_xml \<Rightarrow> relinker_state \<Rightarrow> relinker_state" where
  "relinker_flags h relinker st =
     st\<lparr>geoprotection :=
           (if not_flag (geoprotection st)
            then Some (geoprotection_text relinker = Some ''Y'')
            else geoprotection st),
        is_live :=
           (if not_flag (is_live st)
            then Some (is_live_text relinker = Some ''Y'')
            else is_live st),
        duration :=
           (if not_duration (duration st)
            then parse_duration h (opt_str (duration_text relinker))
            else duration st)\<rparr>"

text \<open>
  Then the formats this platform adds: none at each \<open>continue\<close>. The text of an empty
  \<open>url\<close> element is \<open>None\<close>, on which the \<open>in\<close> test is a TypeError.
\<close>

definition relinker_formats :: "host \<Rightarrow> string \<Rightarrow> relinker_xml \<Rightarrow> error + pyval list" where
  "relinker_formats h platform relinker =
     (case url_elem relinker of
        None \<Rightarrow> Inr []
      | Some None \<Rightarrow> Inl TypeError
      | Some (Some media_url) \<Rightarrow>
          if is_substr ''/video_no_available.mp4'' media_url then Inr []
          else
            let ext = determine_ext h (PStr media_url) ''unknown_video'' in
            if (ext = ''m3u8'' \<and> platform \<noteq> ''mon'') \<or> (ext = ''f4m'' \<and> platform \<noteq> ''flash'')
            then Inr []
            else if ext = ''m3u8'' \<or> is_substr ''format=m3u8'' media_url \<or> platform = ''mon''
            then Inr (extract_m3u8_formats h media_url)
            else if ext = ''f4m'' \<or> platform = ''flash''
            then Inr (extract_f4m_formats h
                   (update_url_query h
                      (py_replace ''manifest#live_hds.f4m'' ''manifest.f4m'' media_url)
                      [(''hdcore'', ''3.7.0''), (''plugin'', ''aasp-3.7.0.39.44'')]))
            else
              and_then (http_format media_url (int_or_none h (opt_str (bitrate_text relinker))))
                (\<lambda>f. Inr [f]))"

definition relinker_platform ::
  "host \<Rightarrow> string \<Rightarrow> relinker_xml \<Rightarrow> relinker_state \<Rightarrow> error + relinker_state" where
  "relinker_platform h platform relinker st =
     and_then (relinker_formats h platform relinker) (\<lambda>fs.
       Inr ((relinker_flags h relinker st)\<lparr>formats := formats st @ fs\<rparr>))"

text \<open>
  The loop. The second component is the log of the platform-variant fetches issued so
  far, in order; an exception ends the loop.
\<close>

fun relinker_loop ::
  "host \<Rightarrow> string \<Rightarrow> string list \<Rightarrow> relinker_state \<Rightarrow> string list
     \<Rightarrow> (error + relinker_state) \<times> string list" where
  "relinker_loop h relinker_url [] st fetched = (Inr st, fetched)"
| "relinker_loop h relinker_url (platform # rest) st fetched =
     (case download_xml h relinker_url platform of
        Inl e \<Rightarrow> (Inl e, fetched @ [platform])
      | Inr relinker \<Rightarrow>
          (case relinker_platform h platform relinker st of
             Inl e \<Rightarrow> (Inl e, fetched @ [platform])
           | Inr st' \<Rightarrow> relinker_loop h relinker_url rest st' (fetched @ [platform])))"

definition platforms :: "string list" where
  "platforms = [''mon'', ''flash'', ''native'']"

text \<open>\<open>re.match(r'https?://', relinker_url)\<close>.\<close>

definition is_http_url :: "string \<Rightarrow> bool" where
  "is_http_url u = (startswith ''http://'' u \<or> startswith ''https://'' u)"

text \<open>
  \<open>_extract_relinker_info\<close>: the result (an exception or the info dictionary, from which
  the \<open>None\<close> values are dropped) together with the log of the fetches.
\<close>

definition extract_relinker_info ::
  "host \<Rightarrow> string \<Rightarrow> (error + (string \<times> pyval) list) \<times> string list" where
  "extract_relinker_info h relinker_url =
     (if \<not> is_http_url relinker_url
      then (Inr [(''formats'', PList [PDict [(''url'', PStr relinker_url)]])], [])
      else
        (case relinker_loop h relinker_url platforms relinker_init [] of
           (Inl e, fetched) \<Rightarrow> (Inl e, fetched)
         | (Inr st, fetched) \<Rightarrow>
             if formats st = [] \<and> geoprotection st = Some True
             then (Inl (raise_geo_restricted GEO_COUNTRIES), fetched)
             else (Inr (filter (\<lambda>(k, v). v \<noteq> PNone)
                          [(''is_live'', opt_bool (is_live st)),
                           (''duration'', opt_float (duration st)),
                           (''formats'', PList (formats st))]), fetched)))"

section \<open>nrk.py\<close>

text \<open>
  \<open>NRKTVIE._str2seconds\<close>. \<open>parts[2]\<close> raises IndexError on fewer than three
  fields; only the ValueError of \<open>float\<close> is caught; \<open>int\<close> of the first two fields
  raises ValueError.
\<close>

definition str2seconds :: "string \<Rightarrow> error + pyfloat" where
  "str2seconds t =
     (let parts = split_on CHR '':'' t in
      if length parts < 3 then Inl IndexError
      else
        let s = (case py_float (parts ! 2) of None \<Rightarrow> Finite 0 | Some x \<Rightarrow> x) in
        (case py_int (parts ! 0) of
           None \<Rightarrow> Inl ValueError
         | Some hours \<Rightarrow>
             (case py_int (parts ! 1) of
                None \<Rightarrow> Inl ValueError
              | Some minutes \<Rightarrow> Inr (int_plus_float (hours * 3600 + minutes * 60) s))))"

text \<open>\<open>'%0wd' % x\<close> for a float \<open>x\<close>: the value is truncated towards zero and padded
  with zeros to the width.\<close>

definition trunc :: "rat \<Rightarrow> int" where
  "trunc x = (if x < 0 then \<lceil>x\<rceil> else \<lfloor>x\<rfloor>)"

definition fmt_d :: "nat \<Rightarrow> rat \<Rightarrow> string" where
  "fmt_d w x =
     (let i = trunc x; ds = str_of_int \<bar>i\<bar> in
      if i < 0 then CHR ''-'' # replicate (w - 1 - length ds) CHR ''0'' @ ds
      else replicate (w - length ds) CHR ''0'' @ ds)"

text \<open>\<open>x % y\<close> on floats, for a positive \<open>y\<close>.\<close>

definition float_mod :: "rat \<Rightarrow> rat \<Rightarrow> rat" where
  "float_mod x y = x - y * of_int \<lfloor>x / y\<rfloor>"

text \<open>
  \<open>NRKTVIE._seconds2str\<close>: \<open>'%02d:%02d:%02d.%03d' % (s/3600, (s%3600)/60, s%60, (s%1)*1000)\<close>.
  \<open>%d\<close> raises OverflowError on an infinity and ValueError on NaN.
\<close>

fun seconds2str :: "pyfloat \<Rightarrow> error + string" where
  "seconds2str (Finite s) =
     Inr (fmt_d 2 (s / 3600) @ '':'' @ fmt_d 2 (float_mod s 3600 / 60) @ '':'' @
          fmt_d 2 (float_mod s 60) @ ''.'' @ fmt_d 3 (float_mod s 1 * 1000))"
| "seconds2str NaN = Inl ValueError"
| "seconds2str x = Inl OverflowError"

text \<open>\<open>_str2seconds(p.get(name))\<close>: \<open>None.split\<close> is an AttributeError.\<close>

definition attr_seconds :: "string option \<Rightarrow> error + pyfloat" where
  "attr_seconds a = (case a of None \<Rightarrow> Inl AttributeError | Some t \<Rightarrow> str2seconds t)"

text \<open>One subtitle block of \<open>_extract_captions\<close>, for the \<open>p\<close> element at position \<open>pos\<close>.\<close>

definition caption_block :: "nat \<Rightarrow> caption_p \<Rightarrow> error + string" where
  "caption_block pos p =
     and_then (attr_seconds (p_begin p)) (\<lambda>start.
     and_then (attr_seconds (p_dur p)) (\<lambda>dur.
     and_then (seconds2str start) (\<lambda>starttime.
     and_then (seconds2str (float_plus start dur)) (\<lambda>endtime.
       Inr (str_of_int (int pos) @ [CHR 0x0D, CHR ''\<newline>''] @ starttime @ '' --> '' @ endtime @
            [CHR 0x0D, CHR ''\<newline>''] @ py_join [CHR ''\<newline>''] (p_itertext p) @
            [CHR 0x0D, CHR ''\<newline>'', CHR 0x0D, CHR ''\<newline>''])))))"

fun caption_blocks :: "nat \<Rightarrow> caption_p list \<Rightarrow> error + string" where
  "caption_blocks pos [] = Inr []"
| "caption_blocks pos (p # rest) =
     and_then (caption_block pos p) (\<lambda>b.
     and_then (caption_blocks (Suc pos) rest) (\<lambda>bs. Inr (b @ bs)))"

text \<open>\<open>NRKTVIE._extract_captions\<close>: the dictionary from the language to the SRT text.\<close>

definition extract_captions :: "host \<Rightarrow> string \<Rightarrow> string \<Rightarrow> error + pyval" where
  "extract_captions h subtitlesurl baseurl =
     and_then (download_captions h (baseurl @ subtitlesurl)) (\<lambda>captions.
     and_then (caption_blocks 0 (p_elems captions)) (\<lambda>srt.
       Inr (PDict [(case lang_attr captions of None \<Rightarrow> ''no'' | Some l \<Rightarrow> l, PStr srt)])))"

definition not_dquote :: "char \<Rightarrow> bool" where
  "not_dquote c = (c \<noteq> CHR 0x22)"

definition is_blank :: "char \<Rightarrow> bool" where
  "is_blank c = (c = CHR '' '')"

text \<open>The pattern \<^verbatim>\<open>name="([^"]+)"\<close>.\<close>

definition attr_rx :: "string \<Rightarrow> rx" where
  "attr_rx name =
     Seq (Lit (name @ ''='' @ [CHR 0x22])) (Seq (Group ''1'' (Plus not_dquote)) (Lit [CHR 0x22]))"

text \<open>The pattern \<^verbatim>\<open>data-subtitlesurl[ ]*=[ ]*"([^"]+)"\<close>.\<close>

definition subtitlesurl_rx :: rx where
  "subtitlesurl_rx =
     Seq (Lit ''data-subtitlesurl'') (Seq (Star is_blank) (Seq (Lit ''='') (Seq (Star is_blank)
       (Seq (Lit [CHR 0x22]) (Seq (Group ''1'' (Plus not_dquote)) (Lit [CHR 0x22]))))))"

text \<open>The pattern \<^verbatim>\<open><div class="nrk-video" data-nrk-id="(\d+)">\<close>.\<close>

definition nrk_id_rx :: rx where
  "nrk_id_rx =
     Seq (Lit (''<div class='' @ [CHR 0x22] @ ''nrk-video'' @ [CHR 0x22] @ '' data-nrk-id='' @ [CHR 0x22]))
       (Seq (Group ''1'' (Plus is_digit)) (Lit ([CHR 0x22] @ ''>'')))"

text \<open>
  \<open>NRKTVIE._real_extract\<close>. Every search of the page is non-fatal; the captions are
  fetched only when a subtitle URL was found. With the \<open>listsubtitles\<close> parameter the
  function returns \<open>None\<close>.
\<close>

definition nrktv_formats :: "string \<Rightarrow> pyval list" where
  "nrktv_formats page =
     (case search_regex (attr_rx ''data-media'') page of
        None \<Rightarrow> []
      | Some u \<Rightarrow> [PDict [(''url'', PStr (u @ ''?hdcore=3.1.1&plugin=aasp-3.1.1.69.124'')),
                          (''format_id'', PStr ''f4m''), (''ext'', PStr ''flv'')]]) @
     (case search_regex (attr_rx ''data-hls-media'') page of
        None \<Rightarrow> []
      | Some u \<Rightarrow> [PDict [(''url'', PStr u), (''format_id'', PStr ''m3u8'')]])"

definition NRKTV_real_extract :: "host \<Rightarrow> string \<Rightarrow> error + pyval" where
  "NRKTV_real_extract h url =
     and_then (mobj_group (re_match NRKTV_VALID_URL url) ''id'') (\<lambda>video_id.
     and_then (mobj_group (re_match NRKTV_VALID_URL url) ''baseurl'') (\<lambda>baseurl.
     and_then (download_webpage h url) (\<lambda>page.
       let title = html_search_meta h [''title''] page;
           description = html_search_meta h [''description''] page;
           thumbnail = html_search_regex h (attr_rx ''data-posterimage'') page;
           upload_date = unified_strdate h (opt_str (html_search_meta h [''rightsfrom''] page));
           duration = float_or_none h (opt_str (html_search_regex h (attr_rx ''data-duration'') page));
           subtitlesurl = html_search_regex h subtitlesurl_rx page
       in
       and_then (if truthy (opt_str subtitlesurl)
                 then extract_captions h (the subtitlesurl) baseurl
                 else Inr (PDict [])) (\<lambda>subtitle.
         if listsubtitles h then Inr PNone
         else Inr (PDict
           [(''id'', PStr video_id),
            (''title'', opt_str title),
            (''description'', opt_str description),
            (''thumbnail'', opt_str thumbnail),
            (''upload_date'', opt_str upload_date),
            (''duration'', opt_float duration),
            (''formats'', PList (sort_formats (format_preference h) (nrktv_formats page))),
            (''subtitles'', subtitle)])))))"

text \<open>
  \<open>thumbnails.sort(key=lambda image: image['pixelWidth'])\<close>. The keys are computed
  first; the widths are JSON integers, and a list of more than one element with another
  kind of key is a TypeError in the model.
\<close>

fun int_keys :: "pyval list \<Rightarrow> int list option" where
  "int_keys [] = Some []"
| "int_keys (PInt i # vs) = map_option (Cons i) (int_keys vs)"
| "int_keys (v # vs) = None"

fun sort_by_pixelWidth :: "pyval \<Rightarrow> error + pyval list" where
  "sort_by_pixelWidth (PList images) =
     and_then (map_err (\<lambda>image. py_getitem image ''pixelWidth'') images) (\<lambda>keys.
       if length images \<le> 1 then Inr images
       else (case int_keys keys of
               None \<Rightarrow> Inl TypeError
             | Some ks \<Rightarrow> Inr (map snd (sort_key fst (zip ks images)))))"
| "sort_by_pixelWidth v = Inl AttributeError"

definition NRK_thumbnail :: "pyval \<Rightarrow> error + pyval" where
  "NRK_thumbnail data =
     and_then (py_get data ''images'') (\<lambda>images.
       if truthy images
       then and_then (py_getitem images ''webImages'') (\<lambda>web.
            and_then (sort_by_pixelWidth web) (\<lambda>thumbnails.
              if thumbnails = [] then Inl IndexError
              else py_getitem (last thumbnails) ''imageUrl''))
       else Inr PNone)"

definition NRK_geo_message :: string where
  "NRK_geo_message =
     ''NRK har ikke rettig-heter til '' @ [CHR 0xC3, CHR 0xA5] @ '' vise dette programmet utenfor Norge''"

text \<open>
  \<open>NRKIE._real_extract\<close>. A geo-blocked item raises a plain \<open>ExtractorError\<close> before
  the media URL is read.
\<close>

definition NRK_real_extract :: "host \<Rightarrow> string \<Rightarrow> error + pyval" where
  "NRK_real_extract h url =
     and_then (mobj_group (re_match NRK_VALID_URL url) ''id'') (\<lambda>url_id.
     and_then (download_webpage h url) (\<lambda>page.
     and_then (required ''video id'' (html_search_regex h nrk_id_rx page)) (\<lambda>video_id.
     and_then (download_json h (''http://v7.psapi.nrk.no/mediaelement/'' @ video_id)) (\<lambda>data.
     and_then (py_getitem data ''usageRights'') (\<lambda>rights.
     and_then (py_getitem rights ''isGeoBlocked'') (\<lambda>blocked.
       if truthy blocked then Inl (ExtractorError NRK_geo_message)
       else
         and_then (py_getitem data ''mediaUrl'') (\<lambda>media_url.
         and_then (concat_lit media_url ''?hdcore=3.1.1&plugin=aasp-3.1.1.69.124'') (\<lambda>video_url.
         and_then (NRK_thumbnail data) (\<lambda>thumbnail.
         and_then (py_getitem data ''title'') (\<lambda>title.
         and_then (py_getitem data ''description'') (\<lambda>description.
           Inr (PDict
             [(''id'', PStr video_id),
              (''url'', PStr video_url),
              (''ext'', PStr ''flv''),
              (''title'', title),
              (''description'', description),
              (''thumbnail'', thumbnail)]))))))))))))"

section \<open>livestreamfails.py\<close>

text \<open>
  \<open>time.strptime(s, '%Y-%m-%dT%H:%M:%S.%fZ')\<close> and \<open>calendar.timegm\<close> of the Python
  standard library. \<open>strptime\<close> compiles the format into the pattern below (every
  directive a named group, the literals case-insensitive), matches it at the start of the
  string, rejects unconverted text after the match, and checks that the day exists in the
  month and the year is at least one. The first six fields of the result are kept.
\<close>

record struct_time =
  tm_year :: int
  tm_mon :: int
  tm_mday :: int
  tm_hour :: int
  tm_min :: int
  tm_sec :: int

definition one_of :: "string \<Rightarrow> rx" where
  "one_of cs = Rep 1 (\<lambda>c. c \<in> set cs)"

definition any_digit :: rx where
  "any_digit = Rep 1 is_digit"

definition strptime_rx :: rx where
  "strptime_rx =
     Seq (Group ''Y'' (Rep 4 is_digit))
    (Seq (Lit ''-'')
    (Seq (Group ''m'' (Alt (Seq (Lit ''1'') (one_of ''012''))
                      (Alt (Seq (Lit ''0'') (one_of ''123456789'')) (one_of ''123456789''))))
    (Seq (Lit ''-'')
    (Seq (Group ''d'' (Alt (Seq (Lit ''3'') (one_of ''01''))
                      (Alt (Seq (one_of ''12'') any_digit)
                      (Alt (Seq (Lit ''0'') (one_of ''123456789''))
                      (Alt (one_of ''123456789'') (Seq (Lit '' '') (one_of ''123456789'')))))))
    (Seq (Alt (Lit ''T'') (Lit ''t''))
    (Seq (Group ''H'' (Alt (Seq (Lit ''2'') (one_of ''0123''))
                      (Alt (Seq (one_of ''01'') any_digit) any_digit)))
    (Seq (Lit '':'')
    (Seq (Group ''M'' (Alt (Seq (one_of ''012345'') any_digit) any_digit))
    (Seq (Lit '':'')
    (Seq (Group ''S'' (Alt (Seq (Lit ''6'') (one_of ''01''))
                      (Alt (Seq (one_of ''012345'') any_digit) any_digit)))
    (Seq (Lit ''.'')
    (Seq (Group ''f'' (Many 1 (Some 6) is_digit))
         (Alt (Lit ''Z'') (Lit ''z''))))))))))))))"

definition isleap :: "int \<Rightarrow> bool" where
  "isleap y = (y mod 4 = 0 \<and> (y mod 100 \<noteq> 0 \<or> y mod 400 = 0))"

definition mdays :: "int list" where
  "mdays = [0, 31, 28, 31, 30, 31, 30, 31, 31, 30, 31, 30, 31]"

definition days_in_month :: "int \<Rightarrow> int \<Rightarrow> int" where
  "days_in_month y m = (if m = 2 \<and> isleap y then 29 else mdays ! nat m)"

text \<open>\<open>datetime.date(y, 1, 1).toordinal()\<close>.\<close>

definition jan1_ordinal :: "int \<Rightarrow> int" where
  "jan1_ordinal y = 365 * (y - 1) + (y - 1) div 4 - (y - 1) div 100 + (y - 1) div 400 + 1"

definition group_int :: "(string \<times> string) list \<Rightarrow> string \<Rightarrow> int option" where
  "group_int g name = (case map_of g name of None \<Rightarrow> None | Some t \<Rightarrow> py_int t)"

definition strptime :: "string \<Rightarrow> error + struct_time" where
  "strptime s =
     (case rx_match strptime_rx s of
        [] \<Rightarrow> Inl ValueError
      | (rest, g) # _ \<Rightarrow>
          if rest \<noteq> [] then Inl ValueError
          else
            (case (group_int g ''Y'', group_int g ''m'', group_int g ''d'',
                   group_int g ''H'', group_int g ''M'', group_int g ''S'') of
               (Some y, Some m, Some d, Some hh, Some mm, Some ss) \<Rightarrow>
                 if y < 1 \<or> days_in_month y m < d then Inl ValueError
                 else Inr \<lparr>tm_year = y, tm_mon = m, tm_mday = d,
                           tm_hour = hh, tm_min = mm, tm_sec = ss\<rparr>
             | _ \<Rightarrow> Inl ValueError))"

definition timegm :: "struct_time \<Rightarrow> int" where
  "timegm t =
     (let days = jan1_ordinal (tm_year t) - jan1_ordinal 1970
               + sum_list (take (nat (tm_mon t) - 1) (tl mdays))
               + (if tm_mon t > 2 \<and> isleap (tm_year t) then 1 else 0)
               + tm_mday t - 1
      in ((days * 24 + tm_hour t) * 60 + tm_min t) * 60 + tm_sec t)"

text \<open>The \<open>timestamp\<close> variable: a falsy \<open>createdAt\<close> is kept as it is, a string is
  parsed and converted, any other value is a TypeError of \<open>strptime\<close>.\<close>

definition created_timestamp :: "pyval \<Rightarrow> error + pyval" where
  "created_timestamp created =
     (if truthy created
      then (case created of
              PStr s \<Rightarrow> and_then (strptime s) (\<lambda>t. Inr (PInt (timegm t)))
            | _ \<Rightarrow> Inl TypeError)
      else Inr created)"

text \<open>\<open>d.get(k, {})\<close>.\<close>

fun py_get_or_empty :: "pyval \<Rightarrow> string \<Rightarrow> error + pyval" where
  "py_get_or_empty (PDict kvs) k = (case map_of kvs k of None \<Rightarrow> Inr (PDict []) | Some v \<Rightarrow> Inr v)"
| "py_get_or_empty v k = Inl AttributeError"

definition video_prefix :: string where
  "video_prefix = ''https://livestreamfails-video-prod.b-cdn.net/video/''"

definition image_prefix :: string where
  "image_prefix = ''https://livestreamfails-image-prod.b-cdn.net/image/''"

text \<open>\<open>LivestreamfailsIE._real_extract\<close>; the entries of the result are evaluated in
  the order of the dictionary display.\<close>

definition Livestreamfails_real_extract :: "host \<Rightarrow> string \<Rightarrow> error + pyval" where
  "Livestreamfails_real_extract h url =
     and_then (match_id Livestreamfails_VALID_URL url) (\<lambda>id.
     and_then (download_webpage h (''https://api.livestreamfails.com/clip/'' @ id)) (\<lambda>body.
     and_then (json_loads h body) (\<lambda>api_response.
     and_then (py_get api_response ''createdAt'') (\<lambda>created.
     and_then (created_timestamp created) (\<lambda>timestamp.
     and_then (py_get api_response ''sourceId'') (\<lambda>display_id.
     and_then (py_get api_response ''videoId'') (\<lambda>video.
     and_then (str_concat video_prefix video) (\<lambda>video_url.
     and_then (py_get api_response ''label'') (\<lambda>title.
     and_then (py_get_or_empty api_response ''streamer'') (\<lambda>streamer.
     and_then (py_get streamer ''label'') (\<lambda>creator.
     and_then (py_get api_response ''imageId'') (\<lambda>image.
     and_then (str_concat image_prefix image) (\<lambda>thumbnail.
       Inr (PDict
         [(''id'', PStr id),
          (''display_id'', display_id),
          (''timestamp'', timestamp),
          (''url'', PStr video_url),
          (''title'', title),
          (''creator'', creator),
          (''thumbnail'', PStr thumbnail)]))))))))))))))"

section \<open>appletrailers.py\<close>

definition not_newline :: "char \<Rightarrow> bool" where
  "not_newline c = (c \<noteq> CHR ''\<newline>'')"

definition is_alnum :: "char \<Rightarrow> bool" where
  "is_alnum c = (is_alpha c \<or> is_digit c)"

text \<open>\<open>_JSON_RE\<close>: \<^verbatim>\<open>iTunes.playURL\((.*?)\);\<close>\<close>

definition JSON_RE :: rx where
  "JSON_RE =
     Seq (Lit ''iTunes'') (Seq (Rep 1 not_newline) (Seq (Lit ''playURL('')
       (Seq (Group ''1'' (Lazy not_newline)) (Lit '');''))))"

text \<open>The runtime pattern \<^verbatim>\<open>(?P<minutes>[0-9]+):(?P<seconds>[0-9]{1,2})\<close>.\<close>

definition runtime_rx :: rx where
  "runtime_rx =
     Seq (Group ''minutes'' (Plus is_digit))
       (Seq (Lit '':'') (Group ''seconds'' (Many 1 (Some 2) is_digit)))"

text \<open>The pattern \<^verbatim>\<open>_(\d*p.mov)\<close> of the format loop.\<close>

definition size_src_rx :: rx where
  "size_src_rx =
     Seq (Lit ''_'') (Group ''1'' (Seq (Star is_digit) (Seq (Lit ''p'')
       (Seq (Rep 1 not_newline) (Lit ''mov'')))))"

text \<open>
  \<open>re.sub(pattern, repl, s)\<close> for a pattern that does not match the empty string: the
  matches are replaced from the left and do not overlap. \<open>skip\<close> counts the characters
  of a match that are still to be dropped.
\<close>

fun rx_sub_from :: "rx \<Rightarrow> ((string \<times> string) list \<Rightarrow> string) \<Rightarrow> nat \<Rightarrow> string \<Rightarrow> string" where
  "rx_sub_from r repl skip [] = []"
| "rx_sub_from r repl (Suc k) (c # cs) = rx_sub_from r repl k cs"
| "rx_sub_from r repl 0 (c # cs) =
     (case rx_match r (c # cs) of
        [] \<Rightarrow> c # rx_sub_from r repl 0 cs
      | (rest, g) # _ \<Rightarrow> repl g @ rx_sub_from r repl (length cs - length rest) cs)"

definition group_text :: "(string \<times> string) list \<Rightarrow> string \<Rightarrow> string" where
  "group_text g name = (case map_of g name of None \<Rightarrow> [] | Some v \<Rightarrow> v)"

text \<open>\<open>re.sub(r'_(\d*p.mov)', r'_h\1', src)\<close>.\<close>

definition real_video_url :: "string \<Rightarrow> string" where
  "real_video_url src = rx_sub_from size_src_rx (\<lambda>g. ''_h'' @ group_text g ''1'') 0 src"

text \<open>The duration from the \<open>runtime\<close> string: \<open>None\<close> when the pattern is not found.
  The groups are runs of digits, on which \<open>int\<close> is the decimal value.\<close>

definition runtime_duration :: "string \<Rightarrow> pyval" where
  "runtime_duration runtime =
     (case re_search runtime_rx runtime of
        None \<Rightarrow> PNone
      | Some g \<Rightarrow> PInt (60 * int (nat_of_digits (group_text g ''minutes''))
                        + int (nat_of_digits (group_text g ''seconds''))))"

text \<open>
  The \<open>except ExtractorError\<close> branch: one candidate from the fields of the page
  data. \<open>construct_direct_download_url\<close> is \<open>'_h'.join(first_url.split('_'))\<close>, the
  format is the text after the last dot.
\<close>

definition construct_direct_download_url :: "string \<Rightarrow> string" where
  "construct_direct_download_url first_url = py_join ''_h'' (split_on CHR ''_'' first_url)"

definition fallback_format :: "host \<Rightarrow> string \<Rightarrow> pyval \<Rightarrow> error + pyval" where
  "fallback_format h first_url trailer_info =
     and_then (py_getitem trailer_info ''width'') (\<lambda>width.
     and_then (py_getitem trailer_info ''height'') (\<lambda>height.
       Inr (PDict
         [(''url'', PStr (construct_direct_download_url first_url)),
          (''format'', PStr (last (split_on CHR ''.'' first_url))),
          (''width'', opt_int (int_or_none h width)),
          (''height'', opt_int (int_or_none h height))])))"

text \<open>The \<open>else\<close> branch: one candidate for each entry of \<open>settings['metadata']['sizes']\<close>,
  then the sort.\<close>

definition size_format :: "host \<Rightarrow> pyval \<Rightarrow> error + pyval" where
  "size_format h fmt =
     and_then (py_getitem fmt ''src'') (\<lambda>src.
       case src of
         PStr s \<Rightarrow>
           and_then (py_getitem fmt ''type'') (\<lambda>ty.
           and_then (py_getitem fmt ''width'') (\<lambda>width.
           and_then (py_getitem fmt ''height'') (\<lambda>height.
             Inr (PDict
               [(''url'', PStr (real_video_url s)),
                (''format'', ty),
                (''width'', opt_int (int_or_none h width)),
                (''height'', opt_int (int_or_none h height))]))))
       | _ \<Rightarrow> Inl TypeError)"

text \<open>\<open>for x in v\<close>: the elements of a list, the keys of a dictionary, the characters of
  a string; nothing else can be iterated.\<close>

fun py_iter :: "pyval \<Rightarrow> error + pyval list" where
  "py_iter (PList xs) = Inr xs"
| "py_iter (PDict kvs) = Inr (map (\<lambda>(k, v). PStr k) kvs)"
| "py_iter (PStr s) = Inr (map (\<lambda>c. PStr [c]) s)"
| "py_iter v = Inl TypeError"

definition settings_formats :: "host \<Rightarrow> pyval \<Rightarrow> error + pyval list" where
  "settings_formats h settings =
     and_then (py_getitem settings ''metadata'') (\<lambda>metadata.
     and_then (py_getitem metadata ''sizes'') (\<lambda>sizes.
     and_then (py_iter sizes) (\<lambda>items.
     and_then (map_err (size_format h) items) (\<lambda>formats.
       Inr (sort_formats (format_preference h) formats)))))"

text \<open>The \<open>try\<close> statement around the settings fetch.\<close>

definition trailer_formats :: "host \<Rightarrow> string \<Rightarrow> string \<Rightarrow> pyval \<Rightarrow> string \<Rightarrow> error + pyval list" where
  "trailer_formats h url first_url trailer_info trailer_id =
     (case download_json h (compat_urljoin h url (''includes/settings/'' @ trailer_id @ ''.json'')) of
        Inl e \<Rightarrow>
          if is_ExtractorError e
          then and_then (fallback_format h first_url trailer_info) (\<lambda>f. Inr [f])
          else Inl e
      | Inr settings \<Rightarrow> settings_formats h settings)"

definition attrib :: "string \<Rightarrow> string option option \<Rightarrow> error + string" where
  "attrib name el =
     (case el of
        None \<Rightarrow> Inl AttributeError
      | Some None \<Rightarrow> Inl (KeyError name)
      | Some (Some v) \<Rightarrow> Inr v)"

text \<open>
  The body of the loop over the \<open>li\<close> elements: \<open>None\<close> is the \<open>continue\<close> of an item
  without a URL, otherwise the entry appended to the playlist.
\<close>

definition trailer_entry :: "host \<Rightarrow> string \<Rightarrow> string \<Rightarrow> string \<Rightarrow> li_elem \<Rightarrow> error + pyval option" where
  "trailer_entry h url movie uploader_id li =
     and_then (attrib ''onClick'' (a_onClick li)) (\<lambda>on_click.
     and_then (required ''trailer info'' (search_regex JSON_RE on_click)) (\<lambda>trailer_info_json.
     and_then (json_loads h trailer_info_json) (\<lambda>trailer_info.
     and_then (py_get trailer_info ''url'') (\<lambda>first_url.
       if \<not> truthy first_url then Inr None
       else
         and_then (py_getitem trailer_info ''title'') (\<lambda>title.
         and_then (case title of
                     PStr t \<Rightarrow> Inr (movie @ ''-'' @ map to_lower (filter is_alnum t))
                   | _ \<Rightarrow> Inl TypeError) (\<lambda>video_id.
         and_then (attrib ''src'' (img_src li)) (\<lambda>thumbnail.
         and_then (py_getitem trailer_info ''posted'') (\<lambda>posted.
         and_then (case posted of
                     PStr p \<Rightarrow> Inr (py_replace ''-'' [] p)
                   | _ \<Rightarrow> Inl AttributeError) (\<lambda>upload_date.
         and_then (py_getitem trailer_info ''runtime'') (\<lambda>runtime.
         and_then (case runtime of
                     PStr r \<Rightarrow> Inr (runtime_duration r)
                   | _ \<Rightarrow> Inl TypeError) (\<lambda>duration.
         and_then (case first_url of PStr u \<Rightarrow> Inr u | _ \<Rightarrow> Inl AttributeError) (\<lambda>u.
         and_then (trailer_formats h url u trailer_info
                     (map to_lower (rpartition_head CHR ''_'' (last (split_on CHR ''/'' u))))) (\<lambda>formats.
           Inr (Some (PDict
             [(''_type'', PStr ''video''),
              (''id'', PStr video_id),
              (''formats'', PList formats),
              (''title'', title),
              (''duration'', duration),
              (''thumbnail'', PStr thumbnail),
              (''upload_date'', PStr upload_date),
              (''uploader_id'', PStr uploader_id),
              (''http_headers'',
                 PDict [(''User-Agent'', PStr ''QuickTime compatible (youtube-dl)'')])])))))))))))))))"

text \<open>The loop: the entries of the items that were not skipped, in order; the first
  exception ends it.\<close>

fun playlist_entries :: "host \<Rightarrow> string \<Rightarrow> string \<Rightarrow> string \<Rightarrow> li_elem list \<Rightarrow> error + pyval list" where
  "playlist_entries h url movie uploader_id [] = Inr []"
| "playlist_entries h url movie uploader_id (li # rest) =
     and_then (trailer_entry h url movie uploader_id li) (\<lambda>entry.
     and_then (playlist_entries h url movie uploader_id rest) (\<lambda>entries.
       Inr (case entry of None \<Rightarrow> entries | Some e \<Rightarrow> e # entries)))"

text \<open>
  \<open>AppleTrailersIE._real_extract\<close>. \<open>download_playlist\<close> stands for the fetch of the
  playlist document with the \<open>fix_html\<close> transform and \<open>doc.findall('./div/ul/li')\<close>.
\<close>

definition AppleTrailers_real_extract :: "host \<Rightarrow> string \<Rightarrow> error + pyval" where
  "AppleTrailers_real_extract h url =
     and_then (mobj_group (re_match AppleTrailers_VALID_URL url) ''movie'') (\<lambda>movie.
     and_then (mobj_group (re_match AppleTrailers_VALID_URL url) ''company'') (\<lambda>uploader_id.
     and_then (download_playlist h (compat_urljoin h url ''includes/playlists/itunes.inc'')) (\<lambda>lis.
     and_then (playlist_entries h url movie uploader_id lis) (\<lambda>playlist.
       Inr (PDict
         [(''_type'', PStr ''playlist''),
          (''id'', PStr movie),
          (''entries'', PList playlist)])))))"

section \<open>rai.py: \<open>RaiIE\<close>\<close>

definition is_hex_lower :: "char \<Rightarrow> bool" where
  "is_hex_lower c = (is_digit c \<or> c \<in> set ''abcdef'')"

text \<open>\<open>_UUID_RE\<close>: \<^verbatim>\<open>[\da-f]{8}-[\da-f]{4}-[\da-f]{4}-[\da-f]{4}-[\da-f]{12}\<close>\<close>

definition UUID_RE :: rx where
  "UUID_RE =
     Seq (Rep 8 is_hex_lower) (Seq (Lit ''-'') (Seq (Rep 4 is_hex_lower) (Seq (Lit ''-'')
       (Seq (Rep 4 is_hex_lower) (Seq (Lit ''-'') (Seq (Rep 4 is_hex_lower) (Seq (Lit ''-'')
         (Rep 12 is_hex_lower))))))))"

text \<open>\<open>RaiIE._VALID_URL\<close>:
  \<^verbatim>\<open>https?://[^/]+\.(?:rai\.(?:it|tv)|rainews\.it)/.+?-(?P<id>UUID)(?:-.+?)?\.html\<close>\<close>

definition Rai_VALID_URL :: rx where
  "Rai_VALID_URL =
     Seq (Lit ''http'') (Seq (Opt (Lit ''s'')) (Seq (Lit ''://'') (Seq (Plus not_slash)
       (Seq (Lit ''.'') (Seq (Alt (Seq (Lit ''rai.'') (Alt (Lit ''it'') (Lit ''tv''))) (Lit ''rainews.it''))
         (Seq (Lit ''/'') (Seq (Rep 1 not_newline) (Seq (Lazy not_newline) (Seq (Lit ''-'')
           (Seq (Group ''id'' UUID_RE)
             (Seq (Opt (Seq (Lit ''-'') (Seq (Rep 1 not_newline) (Lazy not_newline))))
               (Lit ''.html''))))))))))))"

text \<open>The pattern \<^verbatim>\<open>ContentItem-(UUID)\<close>.\<close>

definition content_item_rx :: rx where
  "content_item_rx = Seq (Lit ''ContentItem-'') (Group ''1'' UUID_RE)"

text \<open>\<open>sub in v\<close> for a string \<open>sub\<close>.\<close>

fun py_contains :: "string \<Rightarrow> pyval \<Rightarrow> error + bool" where
  "py_contains sub (PStr s) = Inr (is_substr sub s)"
| "py_contains sub (PList xs) = Inr (PStr sub \<in> set xs)"
| "py_contains sub (PDict kvs) = Inr (sub \<in> set (map fst kvs))"
| "py_contains sub v = Inl TypeError"

text \<open>\<open>d.setdefault(k, []).append(v)\<close>.\<close>

fun dict_append :: "(string \<times> pyval) list \<Rightarrow> string \<Rightarrow> pyval \<Rightarrow> (string \<times> pyval) list" where
  "dict_append [] k v = [(k, PList [v])]"
| "dict_append ((k', PList vs) # kvs) k v =
     (if k' = k then (k', PList (vs @ [v])) # kvs else (k', PList vs) # dict_append kvs k v)"
| "dict_append (kv # kvs) k v = kv # dict_append kvs k v"

text \<open>
  The language of a subtitle as a dictionary key. Lists and dictionaries cannot be
  keys; the dictionaries of the model have string keys, so a number or \<open>True\<close> is a
  TypeError here too.
\<close>

fun lang_key :: "pyval \<Rightarrow> error + string" where
  "lang_key (PStr s) = Inr s"
| "lang_key v = Inl TypeError"

fun is_str :: "pyval \<Rightarrow> bool" where
  "is_str (PStr s) = True"
| "is_str v = False"

text \<open>\<open>sub_url[:-len(STL_EXT)] + SRT_EXT\<close>.\<close>

fun stl_to_srt :: "pyval \<Rightarrow> error + string" where
  "stl_to_srt (PStr s) = Inr (take (length s - 3) s @ ''srt'')"
| "stl_to_srt v = Inl TypeError"

text \<open>The loop of \<open>_extract_subtitles\<close> over the subtitle descriptors.\<close>

fun subtitle_entries ::
  "host \<Rightarrow> string \<Rightarrow> pyval list \<Rightarrow> (string \<times> pyval) list \<Rightarrow> error + (string \<times> pyval) list" where
  "subtitle_entries h url [] subtitles = Inr subtitles"
| "subtitle_entries h url (subtitle # rest) subtitles =
     and_then (py_get subtitle ''url'') (\<lambda>sub_url.
       if truthy sub_url \<and> is_str sub_url
       then
         and_then (py_get subtitle ''language'') (\<lambda>language.
         and_then (lang_key (if truthy language then language else PStr ''it'')) (\<lambda>sub_lang.
           let joined = urljoin h url sub_url;
               sub_ext = determine_ext h joined ''srt'';
               subtitles1 = dict_append subtitles sub_lang
                              (PDict [(''ext'', PStr sub_ext), (''url'', joined)])
           in if sub_ext = ''stl''
              then and_then (stl_to_srt joined) (\<lambda>srt_url.
                     subtitle_entries h url rest
                       (dict_append subtitles1 sub_lang
                          (PDict [(''ext'', PStr ''srt''), (''url'', PStr srt_url)])))
              else subtitle_entries h url rest subtitles1))
       else subtitle_entries h url rest subtitles)"

text \<open>\<open>RaiBaseIE._extract_subtitles\<close>.\<close>

definition extract_subtitles :: "host \<Rightarrow> string \<Rightarrow> pyval \<Rightarrow> error + pyval" where
  "extract_subtitles h url video_data =
     and_then (py_get video_data ''subtitlesArray'') (\<lambda>arr.
     and_then (if truthy arr
               then (case arr of PList xs \<Rightarrow> Inr xs | _ \<Rightarrow> Inl AttributeError)
               else Inr []) (\<lambda>subtitles_array.
     and_then (py_get video_data ''subtitles'') (\<lambda>s1.
     and_then (py_get video_data ''subtitlesUrl'') (\<lambda>s2.
     and_then (subtitle_entries h url
                 (subtitles_array @ [PDict [(''url'', s1)], PDict [(''url'', s2)]]) []) (\<lambda>subtitles.
       Inr (PDict subtitles))))))"

text \<open>\<open>self._sort_formats(relinker_info['formats'])\<close>.\<close>

definition sort_info_formats :: "host \<Rightarrow> (string \<times> pyval) list \<Rightarrow> error + (string \<times> pyval) list" where
  "sort_info_formats h info =
     (case map_of info ''formats'' of
        None \<Rightarrow> Inl (KeyError ''formats'')
      | Some (PList fs) \<Rightarrow> Inr (dict_set info ''formats'' (PList (sort_formats (format_preference h) fs)))
      | Some v \<Rightarrow> Inl TypeError)"

text \<open>The three branches on \<open>media['type']\<close> of \<open>_extract_from_content_id\<close>.\<close>

definition media_relinker_info :: "host \<Rightarrow> pyval \<Rightarrow> pyval \<Rightarrow> error + (string \<times> pyval) list" where
  "media_relinker_info h media media_type =
     and_then (py_contains ''Audio'' media_type) (\<lambda>audio.
       if audio
       then
         and_then (py_get media ''formatoAudio'') (\<lambda>formato.
         and_then (py_getitem media ''audioUrl'') (\<lambda>audio_url.
           Inr [(''formats'', PList [PDict
                  [(''format_id'', formato), (''url'', audio_url), (''ext'', formato)]])]))
       else
         and_then (py_contains ''Video'' media_type) (\<lambda>video.
           if video
           then
             and_then (py_getitem media ''mediaUri'') (\<lambda>uri.
               case uri of
                 PStr u \<Rightarrow> fst (extract_relinker_info h u)
               | _ \<Rightarrow> Inl TypeError)
           else Inl (ExtractorError ''not a media file'')))"

text \<open>The thumbnails: one for each of the three image keys with a truthy value.\<close>

definition media_thumbnail :: "host \<Rightarrow> string \<Rightarrow> pyval \<Rightarrow> string \<Rightarrow> error + pyval list" where
  "media_thumbnail h url media image_type =
     and_then (py_get media image_type) (\<lambda>thumbnail_url.
       if truthy thumbnail_url
       then (case thumbnail_url of
               PStr t \<Rightarrow> Inr [PDict [(''url'', PStr (compat_urljoin h url t))]]
             | _ \<Rightarrow> Inl TypeError)
       else Inr [])"

text \<open>\<open>RaiIE._extract_from_content_id\<close>.\<close>

definition extract_from_content_id :: "host \<Rightarrow> string \<Rightarrow> string \<Rightarrow> error + (string \<times> pyval) list" where
  "extract_from_content_id h content_id url =
     and_then (download_json h
                 (''http://www.rai.tv/dl/RaiTV/programmi/media/ContentItem-'' @ content_id @ ''.html?json''))
       (\<lambda>media.
     and_then (py_getitem media ''name'') (\<lambda>name.
     and_then (case name of PStr n \<Rightarrow> Inr (strip n) | _ \<Rightarrow> Inl AttributeError) (\<lambda>title.
     and_then (py_getitem media ''type'') (\<lambda>media_type.
     and_then (media_relinker_info h media media_type) (\<lambda>relinker_info.
     and_then (sort_info_formats h relinker_info) (\<lambda>relinker_info.
     and_then (map_err (media_thumbnail h url media) [''image'', ''image_medium'', ''image_300''])
       (\<lambda>thumbnails.
     and_then (extract_subtitles h url media) (\<lambda>subtitles.
     and_then (py_get media ''desc'') (\<lambda>desc.
     and_then (py_get media ''author'') (\<lambda>author.
     and_then (py_get media ''date'') (\<lambda>date.
     and_then (py_get media ''length'') (\<lambda>len.
       Inr (dict_update
         [(''id'', PStr content_id),
          (''title'', PStr title),
          (''description'', strip_or_none h desc),
          (''thumbnails'', PList (concat thumbnails)),
          (''uploader'', author),
          (''upload_date'', opt_str (unified_strdate h date)),
          (''duration'', opt_float (parse_duration h len)),
          (''subtitles'', subtitles)]
         relinker_info)))))))))))))"

text \<open>
  The loop over \<open>content_item_ids\<close>: the result of a candidate that succeeds is
  returned; a geo-restriction error is raised again; any other \<open>ExtractorError\<close> is
  passed over; an exception that is no \<open>ExtractorError\<close> propagates. \<open>None\<close> means that
  the loop ended without returning.
\<close>

fun try_content_ids :: "(string \<Rightarrow> error + 'a) \<Rightarrow> string list \<Rightarrow> (error + 'a) option" where
  "try_content_ids extract [] = None"
| "try_content_ids extract (content_item_id # rest) =
     (case extract content_item_id of
        Inr info \<Rightarrow> Some (Inr info)
      | Inl e \<Rightarrow>
          if is_GeoRestrictedError e then Some (Inl e)
          else if is_ExtractorError e then try_content_ids extract rest
          else Some (Inl e))"

text \<open>The outcome of a candidate that the loop passes over: an \<open>ExtractorError\<close>
  other than the geo-restriction error.\<close>

fun passed_over :: "error + 'a \<Rightarrow> bool" where
  "passed_over (Inl e) = (is_ExtractorError e \<and> \<not> is_GeoRestrictedError e)"
| "passed_over (Inr info) = False"

text \<open>
  The strings inserted into the set \<open>content_item_ids\<close>, in the order of insertion:
  the content item id found on the page, if any, then the id of the URL unless it is
  that same string.
\<close>

definition content_item_ids :: "string option \<Rightarrow> string \<Rightarrow> string list" where
  "content_item_ids content_item_id video_id =
     (let ids = (if truthy (opt_str content_item_id) then [the content_item_id] else [])
      in if video_id \<notin> set ids then ids @ [video_id] else ids)"

text \<open>The content item id found on the page: in the meta tags first, then by the
  second pattern.\<close>

definition find_content_item_id :: "host \<Rightarrow> string \<Rightarrow> string option" where
  "find_content_item_id h webpage =
     (let content_item_url =
            html_search_meta h [''og:url'', ''og:video'', ''og:video:secure_url'', ''twitter:url'',
                                ''twitter:player'', ''jsonlink''] webpage;
          content_item_id =
            (if truthy (opt_str content_item_url)
             then search_regex content_item_rx (the content_item_url)
             else None)
      in if \<not> truthy (opt_str content_item_id) then search_content_item_id h webpage
         else content_item_id)"

text \<open>The rest of \<open>_real_extract\<close>, reached when no candidate returned: the relinker
  URL is searched on the page.\<close>

definition extract_from_page :: "host \<Rightarrow> string \<Rightarrow> string \<Rightarrow> string \<Rightarrow> error + (string \<times> pyval) list" where
  "extract_from_page h url video_id webpage =
     and_then (required ''relinker URL'' (search_relinker_url h webpage)) (\<lambda>found.
     and_then (case urljoin h url (PStr (proto_relative_url h found)) of
                 PStr u \<Rightarrow> fst (extract_relinker_info h u)
               | _ \<Rightarrow> Inl TypeError) (\<lambda>relinker_info.
     and_then (sort_info_formats h relinker_info) (\<lambda>relinker_info.
     and_then (if truthy (opt_str (search_video_title h webpage))
               then Inr (the (search_video_title h webpage))
               else og_search_title h webpage) (\<lambda>title.
       Inr (dict_update [(''id'', PStr video_id), (''title'', PStr title)] relinker_info)))))"

text \<open>\<open>RaiIE._real_extract\<close>. The candidates are tried in the order in which the set is
  iterated.\<close>

definition Rai_real_extract :: "host \<Rightarrow> string \<Rightarrow> error + (string \<times> pyval) list" where
  "Rai_real_extract h url =
     and_then (match_id Rai_VALID_URL url) (\<lambda>video_id.
     and_then (download_webpage h url) (\<lambda>webpage.
       case try_content_ids (\<lambda>content_item_id. extract_from_content_id h content_item_id url)
              (set_iter h (content_item_ids (find_content_item_id h webpage) video_id)) of
         Some result \<Rightarrow> result
       | None \<Rightarrow> extract_from_page h url video_id webpage))"

section \<open>Hosts for concrete runs\<close>

text \<open>
  A host without network: every fetch fails with an \<open>ExtractorError\<close>, every search
  finds nothing, the helpers are the simplest functions of their type. The concrete runs
  below replace the fields they need.
\<close>

definition offline_host :: host where
  "offline_host =
     \<lparr>download_webpage = (\<lambda>u. Inl (ExtractorError ''offline'')),
      download_json = (\<lambda>u. Inl (ExtractorError ''offline'')),
      json_loads = (\<lambda>s. Inl ValueError),
      download_xml = (\<lambda>u p. Inl (ExtractorError ''offline'')),
      download_captions = (\<lambda>u. Inl (ExtractorError ''offline'')),
      download_playlist = (\<lambda>u. Inl (ExtractorError ''offline'')),
      extract_m3u8_formats = (\<lambda>u. []),
      extract_f4m_formats = (\<lambda>u. []),
      html_search_meta = (\<lambda>names page. None),
      og_search_title = (\<lambda>page. Inl (RegexNotFoundError ''OpenGraph title'')),
      search_content_item_id = (\<lambda>page. None),
      search_relinker_url = (\<lambda>page. None),
      search_video_title = (\<lambda>page. None),
      proto_relative_url = (\<lambda>u. u),
      clean_html = (\<lambda>s. s),
      parse_duration = (\<lambda>v. None),
      determine_ext = (\<lambda>v d. d),
      int_or_none = (\<lambda>v. case v of PInt i \<Rightarrow> Some i | _ \<Rightarrow> None),
      float_or_none = (\<lambda>v. None),
      unified_strdate = (\<lambda>v. None),
      strip_or_none = (\<lambda>v. v),
      update_url_query = (\<lambda>u q. u),
      urljoin = (\<lambda>base v. v),
      compat_urljoin = (\<lambda>base rel. base @ rel),
      format_preference = (\<lambda>f. 0),
      set_iter = (\<lambda>ids. ids),
      listsubtitles = False\<rparr>"

text \<open>A relinker document that signals geo-protection and names no stream.\<close>

definition geo_relinker :: relinker_xml where
  "geo_relinker =
     \<lparr>geoprotection_text = Some ''Y'', is_live_text = None, duration_text = None,
      url_elem = None, bitrate_text = None\<rparr>"

definition geo_rai_host :: host where
  "geo_rai_host = offline_host\<lparr>download_xml := (\<lambda>u p. Inr geo_relinker)\<rparr>"

text \<open>An NRK page for the media element 150533, whose JSON is marked geo-blocked.\<close>

definition nrk_page :: string where
  "nrk_page = ''<div class='' @ [CHR 0x22] @ ''nrk-video'' @ [CHR 0x22] @ '' data-nrk-id='' @
              [CHR 0x22] @ ''150533'' @ [CHR 0x22] @ ''>''"

definition nrk_geo_data :: pyval where
  "nrk_geo_data =
     PDict [(''title'', PStr ''Piip-Show''),
            (''mediaUrl'', PStr ''http://nordond.nrk.no/x.f4m''),
            (''usageRights'', PDict [(''isGeoBlocked'', PBool True)])]"

definition nrk_geo_host :: host where
  "nrk_geo_host =
     offline_host\<lparr>download_webpage := (\<lambda>u. Inr nrk_page),
                  download_json := (\<lambda>u. Inr nrk_geo_data)\<rparr>"

definition nrk_url :: string where
  "nrk_url = ''http://www.nrk.no/video/dompap_og_andre_fugler_i_piip_show/D0FA54B5C8B6CE59/emne/piipshow/''"

text \<open>
  An Apple Trailers playlist of two items: a clip whose trailer info has an empty
  \<open>url\<close>, and the teaser of the first test of the extractor. The host decodes the two
  JSON texts; the settings fetch fails, as every fetch of the offline host does.
\<close>

definition apple_url :: string where
  "apple_url = ''http://trailers.apple.com/trailers/wb/manofsteel/''"

definition teaser_info :: pyval where
  "teaser_info =
     PDict [(''url'', PStr ''http://trailers.apple.com/movies/wb/manofsteel/manofsteel-tsr_480p.mov''),
            (''title'', PStr ''Teaser''),
            (''posted'', PStr ''2012-07-21''),
            (''runtime'', PStr ''1:33''),
            (''width'', PInt 848),
            (''height'', PInt 352)]"

definition clip_info :: pyval where
  "clip_info = PDict [(''title'', PStr ''Clip''), (''url'', PStr [])]"

definition teaser_li :: li_elem where
  "teaser_li = \<lparr>a_onClick = Some (Some ''iTunes.playURL({teaser}); return false;''),
                img_src = Some (Some ''http://trailers.apple.com/teaser.jpg'')\<rparr>"

definition clip_li :: li_elem where
  "clip_li = \<lparr>a_onClick = Some (Some ''iTunes.playURL({clip}); return false;''),
              img_src = None\<rparr>"

definition apple_host :: host where
  "apple_host =
     offline_host\<lparr>download_playlist := (\<lambda>u. Inr [clip_li, teaser_li]),
                  json_loads := (\<lambda>s. if s = ''{teaser}'' then Inr teaser_info
                                      else if s = ''{clip}'' then Inr clip_info
                                      else Inl ValueError)\<rparr>"

definition teaser_format :: pyval where
  "teaser_format =
     PDict [(''url'', PStr ''http://trailers.apple.com/movies/wb/manofsteel/manofsteel-tsr_h480p.mov''),
            (''format'', PStr ''mov''),
            (''width'', PInt 848),
            (''height'', PInt 352)]"

definition teaser_entry :: pyval where
  "teaser_entry =
     PDict [(''_type'', PStr ''video''),
            (''id'', PStr ''manofsteel-teaser''),
            (''formats'', PList [teaser_format]),
            (''title'', PStr ''Teaser''),
            (''duration'', PInt 93),
            (''thumbnail'', PStr ''http://trailers.apple.com/teaser.jpg''),
            (''upload_date'', PStr ''20120721''),
            (''uploader_id'', PStr ''wb''),
            (''http_headers'', PDict [(''User-Agent'', PStr ''QuickTime compatible (youtube-dl)'')])]"

text \<open>
  A Livestreamfails host that answers every clip request with the given decoded JSON,
  and the response of the extractor's own test, for which the test expects the
  timestamp 1656271785.
\<close>

definition lsf_host :: "pyval \<Rightarrow> host" where
  "lsf_host response =
     offline_host\<lparr>download_webpage := (\<lambda>u. Inr ''{clip}''),
                  json_loads := (\<lambda>s. Inr response)\<rparr>"

definition lsf_url :: string where
  "lsf_url = ''https://livestreamfails.com/clip/139200''"

definition lsf_response :: "string \<Rightarrow> pyval" where
  "lsf_response created =
     PDict [(''videoId'', PStr ''3877b1d3.mp4''),
            (''imageId'', PStr ''3877b1d3.png''),
            (''createdAt'', PStr created),
            (''label'', PStr ''Streamer jumps off a trampoline at full speed''),
            (''sourceId'', PStr ''ConcernedLitigiousSalmonPeteZaroll-O8yo9W2L8OZEKhV2''),
            (''streamer'', PDict [(''label'', PStr ''paradeev1ch'')])]"

definition lsf_minimal_response :: pyval where
  "lsf_minimal_response =
     PDict [(''videoId'', PStr ''3877b1d3.mp4''), (''imageId'', PStr ''3877b1d3.png'')]"

text \<open>An NRK TV page on which no optional attribute is found, and its host.\<close>

definition nrktv_url :: string where
  "nrktv_url = ''http://tv.nrk.no/program/mdfp15000514''"

definition nrktv_host :: host where
  "nrktv_host = offline_host\<lparr>download_webpage := (\<lambda>u. Inr ''<html></html>'')\<rparr>"

text \<open>Three candidates, the last two with the same resolution.\<close>

definition format_720 :: pyval where
  "format_720 = PDict [(''url'', PStr ''http://x/a_h720p.mov''), (''width'', PInt 1280), (''height'', PInt 720)]"

definition format_480 :: pyval where
  "format_480 = PDict [(''url'', PStr ''http://x/a_h480p.mov''), (''width'', PInt 848), (''height'', PInt 480)]"

definition format_480_alt :: pyval where
  "format_480_alt = PDict [(''url'', PStr ''http://y/a_h480p.mov''), (''width'', PInt 848), (''height'', PInt 480)]"

text \<open>A settings document with two sizes, the larger first.\<close>

definition example_settings :: pyval where
  "example_settings =
     PDict [(''metadata'', PDict [(''sizes'', PList
       [PDict [(''src'', PStr ''http://x/a_720p.mov''), (''type'', PStr ''video/quicktime''),
               (''width'', PInt 1280), (''height'', PInt 720)],
        PDict [(''src'', PStr ''http://x/a_480p.mov''), (''type'', PStr ''video/quicktime''),
               (''width'', PInt 848), (''height'', PInt 480)]])])]"

text \<open>
  A RAI page whose meta tags name the content item \<open>efb17665-...\<close>, under a URL whose
  id is \<open>04a9f4bd-...\<close>. The JSON of the URL's id is a video with a direct \<open>mms\<close>
  address; the answer for the page's content item is the parameter. Every relinker
  document signals geo-protection and names no stream.
\<close>

definition rai_url :: string where
  "rai_url = ''http://a.rai.it/x-04a9f4bd-b563-40cf-82a6-aad3529cb4a9.html''"

definition rai_media :: "string \<Rightarrow> pyval" where
  "rai_media uri =
     PDict [(''name'', PStr ''TG1''), (''type'', PStr ''RaiTv Media Video Item''),
            (''mediaUri'', PStr uri)]"

definition rai_host :: "error + pyval \<Rightarrow> host" where
  "rai_host first =
     offline_host
       \<lparr>download_webpage := (\<lambda>u. Inr ''<html></html>''),
        download_json :=
          (\<lambda>u. if u = ''http://www.rai.tv/dl/RaiTV/programmi/media/ContentItem-efb17665-691c-45d5-a60c-5301333cbb0c.html?json''
                then first
                else Inr (rai_media ''mms://mediapolis.rai.it/tg1.wmv'')),
        download_xml := (\<lambda>u p. Inr geo_relinker),
        html_search_meta :=
          (\<lambda>names page. Some ''http://www.rai.it/dl/ContentItem-efb17665-691c-45d5-a60c-5301333cbb0c.html'')\<rparr>"

definition geo_first :: "error + pyval" where
  "geo_first = Inr (rai_media ''http://mediapolis.rai.it/relinker/relinkerServlet.htm?cont=1'')"

definition missing_first :: "error + pyval" where
  "missing_first = Inl (ExtractorError ''HTTP Error 404'')"

definition rai_direct_info :: "(string \<times> pyval) list" where
  "rai_direct_info =
     [(''id'', PStr ''04a9f4bd-b563-40cf-82a6-aad3529cb4a9''),
      (''title'', PStr ''TG1''),
      (''description'', PNone),
      (''thumbnails'', PList []),
      (''uploader'', PNone),
      (''upload_date'', PNone),
      (''duration'', PNone),
      (''subtitles'', PDict []),
      (''formats'', PList [PDict [(''url'', PStr ''mms://mediapolis.rai.it/tg1.wmv'')]])]"

section \<open>Properties\<close>

lemma and_then_Inr [simp]: "and_then x Inr = x"
  by (cases x) simp_all

lemma and_then_eq_Inr:
  "and_then x f = Inr y \<longleftrightarrow> (\<exists>v. x = Inr v \<and> f v = Inr y)"
  by (cases x) simp_all

text \<open>
  C10. A relinker URL that does not start with \<open>http://\<close> or \<open>https://\<close> is returned at
  once: the info dictionary has the single key \<open>formats\<close>, whose list holds exactly one
  candidate with the single key \<open>url\<close> bound to the raw string (so no duration and no
  live flag), and no platform-variant fetch is issued.
\<close>

theorem relinker_non_http_direct:
  "\<not> is_http_url relinker_url \<Longrightarrow>
   extract_relinker_info h relinker_url =
     (Inr [(''formats'', PList [PDict [(''url'', PStr relinker_url)]])], [])"
  by (simp add: extract_relinker_info_def)

theorem relinker_non_http_direct_witness:
  "\<not> is_http_url ''mms://mediapolis.rai.it/x.wmv'' \<and>
   extract_relinker_info offline_host ''mms://mediapolis.rai.it/x.wmv'' =
     (Inr [(''formats'', PList [PDict [(''url'', PStr ''mms://mediapolis.rai.it/x.wmv'')]])], [])"
proof -
  have nh: "\<not> is_http_url ''mms://mediapolis.rai.it/x.wmv''"
    by (simp add: is_http_url_def)
  show ?thesis
    using nh relinker_non_http_direct [OF nh, of offline_host] by simp
qed

subsection \<open>URL patterns\<close>

lemma takeWhile_take_all:
  "k \<le> length (takeWhile P s) \<Longrightarrow> list_all P (take k s)"
proof (induction s arbitrary: k)
  case Nil
  then show ?case by simp
next
  case (Cons c cs)
  then show ?case by (cases k) (auto split: if_splits)
qed

lemma rx_match_Lit_groups:
  "(rest, g) \<in> set (rx_match (Lit l) s) \<Longrightarrow> g = []"
  by (simp split: if_splits)

lemma rx_match_Opt_Lit_groups:
  "(rest, g) \<in> set (rx_match (Opt (Lit l)) s) \<Longrightarrow> g = []"
  by (auto split: if_splits)

lemma rx_match_Alt_Lit_groups:
  "(rest, g) \<in> set (rx_match (Alt (Lit l) (Lit m)) s) \<Longrightarrow> g = []"
  by (auto split: if_splits)

lemma rx_match_SeqE:
  assumes "(rest', gg) \<in> set (rx_match (Seq a b) s)"
  obtains rest g g' where "(rest, g) \<in> set (rx_match a s)"
    and "(rest', g') \<in> set (rx_match b rest)" and "gg = g @ g'"
  using assms by auto

lemma rx_match_Group_Plus:
  assumes "(rest, g) \<in> set (rx_match (Group n (Plus P)) s)"
  shows "\<exists>v. g = [(n, v)] \<and> v \<noteq> [] \<and> list_all P v \<and> s = v @ rest"
proof -
  from assms obtain k where k: "1 \<le> k" "k \<le> length (takeWhile P s)" and r: "rest = drop k s"
    and g: "g = [(n, take (length s - length rest) s)]"
    by (auto simp: Let_def simp del: upt_Suc)
  have "length (takeWhile P s) \<le> length s" by (rule length_takeWhile_le)
  with k have kl: "k \<le> length s" by linarith
  have tk: "take (length s - length rest) s = take k s" using r kl by simp
  have ne: "take k s \<noteq> []" using k kl by auto
  show ?thesis using g tk ne r takeWhile_take_all[OF k(2)] by simp
qed

lemma re_match_SomeD:
  "re_match r u = Some g \<Longrightarrow> \<exists>rest. (rest, g) \<in> set (rx_match r u)"
  by (auto simp: re_match_def split: list.splits prod.splits)


lemma Seq_Lit_D:
  "(r, g) \<in> set (rx_match (Seq (Lit l) b) s) \<Longrightarrow> \<exists>s'. (r, g) \<in> set (rx_match b s')"
  by (erule rx_match_SeqE) (auto dest: rx_match_Lit_groups)

lemma Seq_Opt_Lit_D:
  "(r, g) \<in> set (rx_match (Seq (Opt (Lit l)) b) s) \<Longrightarrow> \<exists>s'. (r, g) \<in> set (rx_match b s')"
  by (erule rx_match_SeqE) (auto dest: rx_match_Opt_Lit_groups)

lemma Seq_Alt_Lit_D:
  "(r, g) \<in> set (rx_match (Seq (Alt (Lit l) (Lit m)) b) s) \<Longrightarrow> \<exists>s'. (r, g) \<in> set (rx_match b s')"
  by (erule rx_match_SeqE) (auto dest: rx_match_Alt_Lit_groups)

lemma Livestreamfails_groups:
  assumes "re_match Livestreamfails_VALID_URL u = Some g"
  shows "\<exists>v. g = [(''id'', v)] \<and> v \<noteq> [] \<and> list_all is_digit v"
proof -
  from assms obtain r0 where "(r0, g) \<in> set (rx_match Livestreamfails_VALID_URL u)"
    using re_match_SomeD by blast
  then obtain s where "(r0, g) \<in> set (rx_match (Group ''id'' (Plus is_digit)) s)"
    unfolding Livestreamfails_VALID_URL_def
    by (blast dest!: Seq_Lit_D Seq_Opt_Lit_D)
  then show ?thesis by (blast dest: rx_match_Group_Plus)
qed

lemma AppleTrailers_groups:
  assumes "re_match AppleTrailers_VALID_URL u = Some g"
  shows "\<exists>c m. g = [(''company'', c), (''movie'', m)] \<and> c \<noteq> [] \<and> m \<noteq> []
           \<and> list_all not_slash c \<and> list_all not_slash m"
proof -
  from assms obtain r0 where "(r0, g) \<in> set (rx_match AppleTrailers_VALID_URL u)"
    using re_match_SomeD by blast
  then obtain s where "(r0, g) \<in> set (rx_match
      (Seq (Group ''company'' (Plus not_slash)) (Seq (Lit ''/'') (Group ''movie'' (Plus not_slash)))) s)"
    unfolding AppleTrailers_VALID_URL_def
    by (blast dest!: Seq_Lit_D Seq_Opt_Lit_D Seq_Alt_Lit_D)
  then obtain r1 g1 g2 where c: "(r1, g1) \<in> set (rx_match (Group ''company'' (Plus not_slash)) s)"
    and m: "(r0, g2) \<in> set (rx_match (Seq (Lit ''/'') (Group ''movie'' (Plus not_slash))) r1)"
    and g: "g = g1 @ g2"
    by (rule rx_match_SeqE)
  from m obtain s' where m': "(r0, g2) \<in> set (rx_match (Group ''movie'' (Plus not_slash)) s')"
    by (blast dest!: Seq_Lit_D)
  from rx_match_Group_Plus[OF c] obtain cv where
    cv: "g1 = [(''company'', cv)]" "cv \<noteq> []" "list_all not_slash cv" by blast
  from rx_match_Group_Plus[OF m'] obtain mv where
    mv: "g2 = [(''movie'', mv)]" "mv \<noteq> []" "list_all not_slash mv" by blast
  show ?thesis using g cv mv by simp
qed

text \<open>
  C6. For the Livestreamfails and the Apple Trailers pattern, and every URL string:
  either \<open>re.match\<close> reports no match (the value \<open>None\<close>, no exception), or it
  matches and the named groups the extractor reads (\<open>id\<close>; \<open>company\<close> and \<open>movie\<close>)
  are non-empty strings.
\<close>

theorem url_match_id_nonempty:
  "(re_match Livestreamfails_VALID_URL u = None \<or>
      (\<exists>v. mobj_group (re_match Livestreamfails_VALID_URL u) ''id'' = Inr v \<and> v \<noteq> [])) \<and>
   (re_match AppleTrailers_VALID_URL u = None \<or>
      (\<exists>c m. mobj_group (re_match AppleTrailers_VALID_URL u) ''company'' = Inr c \<and> c \<noteq> [] \<and>
             mobj_group (re_match AppleTrailers_VALID_URL u) ''movie'' = Inr m \<and> m \<noteq> []))"
proof
  show "re_match Livestreamfails_VALID_URL u = None \<or>
      (\<exists>v. mobj_group (re_match Livestreamfails_VALID_URL u) ''id'' = Inr v \<and> v \<noteq> [])"
  proof (cases "re_match Livestreamfails_VALID_URL u")
    case None
    then show ?thesis by simp
  next
    case (Some g)
    from Livestreamfails_groups[OF Some] show ?thesis
      using Some by (auto simp: mobj_group_def)
  qed
  show "re_match AppleTrailers_VALID_URL u = None \<or>
      (\<exists>c m. mobj_group (re_match AppleTrailers_VALID_URL u) ''company'' = Inr c \<and> c \<noteq> [] \<and>
             mobj_group (re_match AppleTrailers_VALID_URL u) ''movie'' = Inr m \<and> m \<noteq> [])"
  proof (cases "re_match AppleTrailers_VALID_URL u")
    case None
    then show ?thesis by simp
  next
    case (Some g)
    from AppleTrailers_groups[OF Some] show ?thesis
      using Some by (auto simp: mobj_group_def)
  qed
qed

theorem url_match_id_nonempty_witness:
  "mobj_group (re_match Livestreamfails_VALID_URL ''https://livestreamfails.com/clip/139200'') ''id''
     = Inr ''139200'' \<and>
   re_match Livestreamfails_VALID_URL ''https://livestreamfails.com/clip/'' = None \<and>
   mobj_group (re_match AppleTrailers_VALID_URL ''http://trailers.apple.com/trailers/wb/manofsteel/'')
     ''movie'' = Inr ''manofsteel'' \<and>
   re_match AppleTrailers_VALID_URL ''http://trailers.apple.com/#section=justadded'' = None"
  using url_match_id_nonempty [of "''https://livestreamfails.com/clip/139200''"]
  by (simp add: re_match_def mobj_group_def Livestreamfails_VALID_URL_def
      AppleTrailers_VALID_URL_def is_digit_def not_slash_def)

subsection \<open>The NRK time parser\<close>






















subsection \<open>Geo-restriction\<close>

lemma relinker_platform_geo:
  "relinker_platform h platform relinker st = Inr st' \<Longrightarrow>
   geoprotection st' = (if not_flag (geoprotection st)
                        then Some (geoprotection_text relinker = Some ''Y'')
                        else geoprotection st)"
  by (cases "relinker_formats h platform relinker")
     (auto simp: relinker_platform_def relinker_flags_def)

lemma relinker_platform_geo_keep:
  "relinker_platform h platform relinker st = Inr st' \<Longrightarrow>
   geoprotection st = Some True \<or> geoprotection_text relinker = Some ''Y'' \<Longrightarrow>
   geoprotection st' = Some True"
  by (auto simp: relinker_platform_geo not_flag_def)

lemma relinker_loop_geo:
  "relinker_loop h u pls st fetched = (Inr st', fetched') \<Longrightarrow>
   geoprotection st = Some True \<or>
     (\<exists>p \<in> set pls. \<exists>x. download_xml h u p = Inr x \<and> geoprotection_text x = Some ''Y'') \<Longrightarrow>
   geoprotection st' = Some True"
proof (induction pls arbitrary: st fetched)
  case Nil
  then show ?case by simp
next
  case (Cons p pls)
  from Cons.prems(1) obtain x st1 where
    x: "download_xml h u p = Inr x" and
    s: "relinker_platform h p x st = Inr st1" and
    r: "relinker_loop h u pls st1 (fetched @ [p]) = (Inr st', fetched')"
    by (auto split: sum.splits)
  show ?case
  proof (cases "geoprotection st = Some True \<or> geoprotection_text x = Some ''Y''")
    case True
    then have "geoprotection st1 = Some True"
      using relinker_platform_geo_keep[OF s] by blast
    then show ?thesis using Cons.IH[OF r] by blast
  next
    case False
    then have "\<exists>q \<in> set pls. \<exists>y. download_xml h u q = Inr y \<and> geoprotection_text y = Some ''Y''"
      using Cons.prems(2) x by auto
    then show ?thesis using Cons.IH[OF r] by blast
  qed
qed

lemma relinker_geo_restricted:
  assumes "is_http_url relinker_url"
    and "relinker_loop h relinker_url platforms relinker_init [] = (Inr st, fetched)"
    and "formats st = []"
    and "\<exists>p \<in> set platforms. \<exists>x. download_xml h relinker_url p = Inr x \<and> geoprotection_text x = Some ''Y''"
  shows "extract_relinker_info h relinker_url = (Inl (GeoRestrictedError [''IT'']), fetched)"
proof -
  have "geoprotection st = Some True"
    using relinker_loop_geo[OF assms(2)] assms(4) by blast
  then show ?thesis
    using assms(1,2,3)
    by (simp add: extract_relinker_info_def raise_geo_restricted_def GEO_COUNTRIES_def)
qed

lemma NRK_geo_blocked:
  assumes "mobj_group (re_match NRK_VALID_URL url) ''id'' = Inr url_id"
    and "download_webpage h url = Inr page"
    and "html_search_regex h nrk_id_rx page = Some video_id"
    and "download_json h (''http://v7.psapi.nrk.no/mediaelement/'' @ video_id) = Inr data"
    and "py_getitem data ''usageRights'' = Inr rights"
    and "py_getitem rights ''isGeoBlocked'' = Inr blocked"
    and "truthy blocked"
  shows "NRK_real_extract h url = Inl (ExtractorError NRK_geo_message)"
  using assms by (simp add: NRK_real_extract_def required_def)

lemma nrk_url_id: "mobj_group (re_match NRK_VALID_URL nrk_url) ''id'' = Inr ''D0FA54B5C8B6CE59''"
  by (simp add: NRK_VALID_URL_def nrk_url_def re_match_def mobj_group_def not_slash_def is_hex_upper_def is_digit_def)

lemma nrk_page_id: "html_search_regex h nrk_id_rx nrk_page = Some (clean_html h ''150533'')"
  by (simp add: html_search_regex_def search_regex_def nrk_id_rx_def nrk_page_def re_match_def is_digit_def)

text \<open>
  C1, as amended. In the RAI relinker, when the loop over the platforms ends with no
  format and one of the fetched documents has \<open>geoprotection\<close> \<open>Y\<close>, the operation
  raises the geo-restriction error with the country list \<open>['IT']\<close> and returns no
  record. In \<open>NRKIE\<close>, a truthy \<open>isGeoBlocked\<close> raises a plain \<open>ExtractorError\<close>
  without a country list, and no record is returned either.
\<close>

theorem geo_blocked_errors:
  "(is_http_url relinker_url \<and>
    relinker_loop h relinker_url platforms relinker_init [] = (Inr st, fetched) \<and>
    formats st = [] \<and>
    (\<exists>p \<in> set platforms. \<exists>x. download_xml h relinker_url p = Inr x \<and>
                                 geoprotection_text x = Some ''Y'') \<longrightarrow>
    extract_relinker_info h relinker_url = (Inl (GeoRestrictedError [''IT'']), fetched)) \<and>
   (mobj_group (re_match NRK_VALID_URL url) ''id'' = Inr url_id \<and>
    download_webpage hn url = Inr page \<and>
    html_search_regex hn nrk_id_rx page = Some video_id \<and>
    download_json hn (''http://v7.psapi.nrk.no/mediaelement/'' @ video_id) = Inr data \<and>
    py_getitem data ''usageRights'' = Inr rights \<and>
    py_getitem rights ''isGeoBlocked'' = Inr blocked \<and>
    truthy blocked \<longrightarrow>
    NRK_real_extract hn url = Inl (ExtractorError NRK_geo_message))"
  using relinker_geo_restricted [of relinker_url h st fetched]
    NRK_geo_blocked [of url url_id hn page video_id data rights blocked]
  by blast

theorem geo_blocked_errors_witness:
  "extract_relinker_info geo_rai_host ''http://mediapolis.rai.it/relinker/relinkerServlet.htm?cont=1''
     = (Inl (GeoRestrictedError [''IT'']), [''mon'', ''flash'', ''native'']) \<and>
   NRK_real_extract nrk_geo_host nrk_url = Inl (ExtractorError NRK_geo_message)"
proof -
  let ?u = "''http://mediapolis.rai.it/relinker/relinkerServlet.htm?cont=1''"
  let ?st = "\<lparr>formats = [], geoprotection = Some True, is_live = Some False, duration = None\<rparr>"
  have a1: "is_http_url ?u"
    by (simp add: is_http_url_def)
  have a2: "relinker_loop geo_rai_host ?u platforms relinker_init []
              = (Inr ?st, [''mon'', ''flash'', ''native''])"
    by (simp add: platforms_def relinker_init_def geo_rai_host_def offline_host_def
        geo_relinker_def relinker_platform_def relinker_flags_def relinker_formats_def
        not_flag_def not_duration_def opt_str_def)
  have a3: "formats ?st = []"
    by simp
  have a4: "\<exists>p \<in> set platforms. \<exists>x. download_xml geo_rai_host ?u p = Inr x \<and>
                                       geoprotection_text x = Some ''Y''"
    by (auto simp: platforms_def geo_rai_host_def offline_host_def geo_relinker_def)
  have b1: "download_webpage nrk_geo_host nrk_url = Inr nrk_page"
    by (simp add: nrk_geo_host_def offline_host_def)
  have b2: "html_search_regex nrk_geo_host nrk_id_rx nrk_page = Some ''150533''"
    by (simp add: nrk_page_id nrk_geo_host_def offline_host_def)
  have b3: "download_json nrk_geo_host (''http://v7.psapi.nrk.no/mediaelement/'' @ ''150533'')
              = Inr nrk_geo_data"
    by (simp add: nrk_geo_host_def offline_host_def)
  have b4: "py_getitem nrk_geo_data ''usageRights'' = Inr (PDict [(''isGeoBlocked'', PBool True)])"
    by (simp add: nrk_geo_data_def)
  have b5: "py_getitem (PDict [(''isGeoBlocked'', PBool True)]) ''isGeoBlocked'' = Inr (PBool True)"
    by simp
  have b6: "truthy (PBool True)"
    by simp
  show ?thesis
    using geo_blocked_errors [where relinker_url = ?u and h = geo_rai_host and st = ?st
        and fetched = "[''mon'', ''flash'', ''native'']" and url = nrk_url
        and url_id = "''D0FA54B5C8B6CE59''" and hn = nrk_geo_host and page = nrk_page
        and video_id = "''150533''" and data = nrk_geo_data
        and rights = "PDict [(''isGeoBlocked'', PBool True)]" and blocked = "PBool True"]
      a1 a2 a3 a4 nrk_url_id b1 b2 b3 b4 b5 b6
    by blast
qed

text \<open>
  The geo-blocked NRK item of the concrete run: the error is an \<open>ExtractorError\<close>, not
  the geo-restriction error, and carries no country list.
\<close>

theorem nrk_geo_block_is_plain_error:
  "NRK_real_extract nrk_geo_host nrk_url = Inl (ExtractorError NRK_geo_message) \<and>
   \<not> is_GeoRestrictedError (ExtractorError NRK_geo_message)"
  by (simp add: NRK_real_extract_def nrk_url_id nrk_page_id required_def
      nrk_geo_host_def offline_host_def nrk_geo_data_def)

subsection \<open>Apple Trailers\<close>

lemma fallback_formats:
  assumes "download_json h (compat_urljoin h url (''includes/settings/'' @ trailer_id @ ''.json'')) = Inl e"
    and "is_ExtractorError e"
    and "py_getitem trailer_info ''width'' = Inr width"
    and "py_getitem trailer_info ''height'' = Inr height"
  shows "trailer_formats h url first_url trailer_info trailer_id =
           Inr [PDict [(''url'', PStr (construct_direct_download_url first_url)),
                       (''format'', PStr (last (split_on CHR ''.'' first_url))),
                       (''width'', opt_int (int_or_none h width)),
                       (''height'', opt_int (int_or_none h height))]]"
  using assms by (simp add: trailer_formats_def fallback_format_def)

lemma trailer_entry_skip:
  assumes "attrib ''onClick'' (a_onClick li) = Inr on_click"
    and "search_regex JSON_RE on_click = Some trailer_info_json"
    and "json_loads h trailer_info_json = Inr (PDict kvs)"
    and "map_of kvs ''url'' = None \<or> (\<exists>v. map_of kvs ''url'' = Some v \<and> \<not> truthy v)"
  shows "trailer_entry h url movie uploader_id li = Inr None"
  using assms by (auto simp: trailer_entry_def required_def)

lemma playlist_entries_skip:
  assumes "trailer_entry h url movie uploader_id li = Inr None"
  shows "playlist_entries h url movie uploader_id (before @ li # after) =
         playlist_entries h url movie uploader_id (before @ after)"
proof (induction before)
  case Nil
  show ?case
    using assms by (cases "playlist_entries h url movie uploader_id after") simp_all
next
  case (Cons x xs)
  then show ?case by simp
qed

lemma apple_url_groups:
  "re_match AppleTrailers_VALID_URL apple_url = Some [(''company'', ''wb''), (''movie'', ''manofsteel'')]"
  by (simp add: re_match_def AppleTrailers_VALID_URL_def apple_url_def not_slash_def)

lemma teaser_json:
  "search_regex JSON_RE ''iTunes.playURL({teaser}); return false;'' = Some ''{teaser}''"
  by (simp add: search_regex_def JSON_RE_def re_match_def not_newline_def)

lemma clip_json:
  "search_regex JSON_RE ''iTunes.playURL({clip}); return false;'' = Some ''{clip}''"
  by (simp add: search_regex_def JSON_RE_def re_match_def not_newline_def)

lemma teaser_url_parts:
  "construct_direct_download_url ''http://trailers.apple.com/movies/wb/manofsteel/manofsteel-tsr_480p.mov''
     = ''http://trailers.apple.com/movies/wb/manofsteel/manofsteel-tsr_h480p.mov''"
  "last (split_on CHR ''.'' ''http://trailers.apple.com/movies/wb/manofsteel/manofsteel-tsr_480p.mov'') = ''mov''"
  by (simp_all add: construct_direct_download_url_def)

lemma teaser_fields:
  "map to_lower (filter is_alnum ''Teaser'') = ''teaser''"
  "py_replace ''-'' [] ''2012-07-21'' = ''20120721''"
  "runtime_duration ''1:33'' = PInt 93"
  by (simp_all add: to_lower_def is_alnum_def is_alpha_def is_lower_def is_digit_def py_replace_def
      runtime_duration_def runtime_rx_def re_match_def group_text_def nat_of_digits_def digit_val_def)

lemma teaser_settings_fetch:
  "download_json apple_host (compat_urljoin apple_host apple_url (''includes/settings/'' @ tid @ ''.json''))
     = Inl (ExtractorError ''offline'')"
  by (simp add: apple_host_def offline_host_def)

text \<open>
  C2. When the settings fetch of an item raises an \<open>ExtractorError\<close> and the trailer
  info of the page has the keys \<open>width\<close> and \<open>height\<close>, the format list of the item is
  exactly one candidate: its URL is the item's URL with \<open>h\<close> inserted after each
  underscore, its format the text after the last dot, its width and height the page's
  values passed through \<open>int_or_none\<close>.
\<close>

theorem settings_failure_single_candidate:
  assumes "download_json h (compat_urljoin h url (''includes/settings/'' @ trailer_id @ ''.json'')) = Inl e"
    and "is_ExtractorError e"
    and "py_getitem trailer_info ''width'' = Inr width"
    and "py_getitem trailer_info ''height'' = Inr height"
  shows "\<exists>candidate.
           trailer_formats h url first_url trailer_info trailer_id = Inr [candidate] \<and>
           candidate = PDict [(''url'', PStr (construct_direct_download_url first_url)),
                              (''format'', PStr (last (split_on CHR ''.'' first_url))),
                              (''width'', opt_int (int_or_none h width)),
                              (''height'', opt_int (int_or_none h height))]"
  using fallback_formats [OF assms] by simp

text \<open>
  The teaser of the concrete playlist: the fallback gives the one candidate
  \<open>teaser_format\<close>, and the whole extraction returns the playlist with the teaser's
  entry, whose fields are those of the fourth entry of the extractor's own test.
\<close>

theorem settings_failure_single_candidate_witness:
  "trailer_formats apple_host apple_url
     ''http://trailers.apple.com/movies/wb/manofsteel/manofsteel-tsr_480p.mov''
     teaser_info ''manofsteel-tsr'' = Inr [teaser_format] \<and>
   AppleTrailers_real_extract apple_host apple_url =
     Inr (PDict [(''_type'', PStr ''playlist''), (''id'', PStr ''manofsteel''),
                 (''entries'', PList [teaser_entry])])"
proof -
  have e: "is_ExtractorError (ExtractorError ''offline'')"
    by simp
  have w: "py_getitem teaser_info ''width'' = Inr (PInt 848)"
    and hg: "py_getitem teaser_info ''height'' = Inr (PInt 352)"
    by (simp_all add: teaser_info_def)
  have i: "int_or_none apple_host (PInt 848) = Some 848" "int_or_none apple_host (PInt 352) = Some 352"
    by (simp_all add: apple_host_def offline_host_def)
  have f: "trailer_formats apple_host apple_url
             ''http://trailers.apple.com/movies/wb/manofsteel/manofsteel-tsr_480p.mov''
             teaser_info ''manofsteel-tsr'' = Inr [teaser_format]"
    using settings_failure_single_candidate
        [OF teaser_settings_fetch [of "''manofsteel-tsr''"] e w hg,
         where first_url = "''http://trailers.apple.com/movies/wb/manofsteel/manofsteel-tsr_480p.mov''"]
    by (simp add: teaser_url_parts teaser_format_def opt_int_def i)
  have jt: "json_loads apple_host ''{teaser}'' = Inr teaser_info"
    and jc: "json_loads apple_host ''{clip}'' = Inr clip_info"
    and pl: "download_playlist apple_host (compat_urljoin apple_host apple_url ''includes/playlists/itunes.inc'')
               = Inr [clip_li, teaser_li]"
    by (simp_all add: apple_host_def offline_host_def)
  have g: "py_get teaser_info ''url'' =
             Inr (PStr ''http://trailers.apple.com/movies/wb/manofsteel/manofsteel-tsr_480p.mov'')"
    "py_getitem teaser_info ''title'' = Inr (PStr ''Teaser'')"
    "py_getitem teaser_info ''posted'' = Inr (PStr ''2012-07-21'')"
    "py_getitem teaser_info ''runtime'' = Inr (PStr ''1:33'')"
    "py_get clip_info ''url'' = Inr (PStr [])"
    by (simp_all add: teaser_info_def clip_info_def)
  have t: "trailer_entry apple_host apple_url ''manofsteel'' ''wb'' teaser_li = Inr (Some teaser_entry)"
    by (simp add: trailer_entry_def teaser_li_def attrib_def teaser_json required_def jt g
        teaser_fields to_lower_def is_alnum_def is_alpha_def is_lower_def is_digit_def
        rpartition_head_def f teaser_entry_def)
  have c: "trailer_entry apple_host apple_url ''manofsteel'' ''wb'' clip_li = Inr None"
    by (simp add: trailer_entry_def clip_li_def attrib_def clip_json required_def jc g)
  have r: "AppleTrailers_real_extract apple_host apple_url =
     Inr (PDict [(''_type'', PStr ''playlist''), (''id'', PStr ''manofsteel''),
                 (''entries'', PList [teaser_entry])])"
    by (simp add: AppleTrailers_real_extract_def apple_url_groups mobj_group_def pl t c)
  show ?thesis using f r by simp
qed

text \<open>
  C9. An item whose trailer info is a JSON object without a \<open>url\<close>, or with a falsy
  one such as the empty string, is skipped: its loop body ends at the \<open>continue\<close>, and
  the playlist built from the items is the one built without that item, whether the
  others succeed or raise.
\<close>

theorem item_without_url_skipped:
  assumes "attrib ''onClick'' (a_onClick li) = Inr on_click"
    and "search_regex JSON_RE on_click = Some trailer_info_json"
    and "json_loads h trailer_info_json = Inr (PDict kvs)"
    and "map_of kvs ''url'' = None \<or> (\<exists>v. map_of kvs ''url'' = Some v \<and> \<not> truthy v)"
  shows "trailer_entry h url movie uploader_id li = Inr None \<and>
         playlist_entries h url movie uploader_id (before @ li # after) =
         playlist_entries h url movie uploader_id (before @ after)"
  using trailer_entry_skip [OF assms] playlist_entries_skip by blast

theorem item_without_url_skipped_witness:
  "trailer_entry apple_host apple_url ''manofsteel'' ''wb'' clip_li = Inr None \<and>
   playlist_entries apple_host apple_url ''manofsteel'' ''wb'' [clip_li, teaser_li] =
   playlist_entries apple_host apple_url ''manofsteel'' ''wb'' [teaser_li]"
proof -
  have a: "attrib ''onClick'' (a_onClick clip_li) = Inr ''iTunes.playURL({clip}); return false;''"
    by (simp add: clip_li_def attrib_def)
  have j: "json_loads apple_host ''{clip}'' = Inr (PDict [(''title'', PStr ''Clip''), (''url'', PStr [])])"
    by (simp add: apple_host_def offline_host_def clip_info_def)
  have u: "map_of [(''title'', PStr ''Clip''), (''url'', PStr [])] ''url'' = None \<or>
           (\<exists>v. map_of [(''title'', PStr ''Clip''), (''url'', PStr [])] ''url'' = Some v \<and> \<not> truthy v)"
    by simp
  show ?thesis
    using item_without_url_skipped [OF a clip_json j u, of apple_url "''manofsteel''" "''wb''" "[]" "[teaser_li]"]
    by simp
qed

subsection \<open>Livestreamfails and the optional fields\<close>

lemma strptime_Nil: "strptime [] = Inl ValueError"
  by (simp add: strptime_def strptime_rx_def)

lemma strptime_error: "strptime s = Inl e \<Longrightarrow> e = ValueError"
  by (auto simp: strptime_def split: list.splits prod.splits if_splits option.splits)

lemma py_get_dict: "py_get (PDict kvs) k = Inr (get_or_none kvs k)"
  by (simp add: get_or_none_def split: option.splits)

lemma clip_record:
  assumes "match_id Livestreamfails_VALID_URL url = Inr clip_id"
    and "download_webpage h (''https://api.livestreamfails.com/clip/'' @ clip_id) = Inr body"
    and "json_loads h body = Inr (PDict kvs)"
    and "map_of kvs ''videoId'' = Some (PStr video)"
    and "map_of kvs ''imageId'' = Some (PStr image_id)"
    and "map_of kvs ''createdAt'' = Some (PStr created)"
    and "strptime created = Inr t"
    and "py_get_or_empty (PDict kvs) ''streamer'' = Inr (PDict streamer)"
  shows "Livestreamfails_real_extract h url =
             Inr (PDict [(''id'', PStr clip_id),
                         (''display_id'', get_or_none kvs ''sourceId''),
                         (''timestamp'', PInt (timegm t)),
                         (''url'', PStr (video_prefix @ video)),
                         (''title'', get_or_none kvs ''label''),
                         (''creator'', get_or_none streamer ''label''),
                         (''thumbnail'', PStr (image_prefix @ image_id))])"
proof -
  have ne: "created \<noteq> []"
    using assms(7) strptime_Nil by auto
  have ts: "created_timestamp (PStr created) = Inr (PInt (timegm t))"
    using ne assms(7) by (simp add: created_timestamp_def)
  have g: "get_or_none kvs ''videoId'' = PStr video" "get_or_none kvs ''imageId'' = PStr image_id"
    "get_or_none kvs ''createdAt'' = PStr created"
    using assms(4-6) by (simp_all add: get_or_none_def)
  show ?thesis
    using assms(1-3,8) ts
    by (simp add: Livestreamfails_real_extract_def py_get_dict g
        del: py_get.simps py_get_or_empty.simps)
qed

lemma clip_without_optional_fields:
  assumes "match_id Livestreamfails_VALID_URL url = Inr clip_id"
    and "download_webpage h (''https://api.livestreamfails.com/clip/'' @ clip_id) = Inr body"
    and "json_loads h body = Inr (PDict kvs)"
    and "map_of kvs ''videoId'' = Some (PStr video)"
    and "map_of kvs ''imageId'' = Some (PStr image_id)"
    and "map_of kvs ''createdAt'' = None" "map_of kvs ''sourceId'' = None"
    and "map_of kvs ''label'' = None" "map_of kvs ''streamer'' = None"
  shows "Livestreamfails_real_extract h url =
             Inr (PDict [(''id'', PStr clip_id),
                         (''display_id'', PNone),
                         (''timestamp'', PNone),
                         (''url'', PStr (video_prefix @ video)),
                         (''title'', PNone),
                         (''creator'', PNone),
                         (''thumbnail'', PStr (image_prefix @ image_id))])"
  using assms by (simp add: Livestreamfails_real_extract_def created_timestamp_def)

lemma clip_bad_timestamp:
  assumes "match_id Livestreamfails_VALID_URL url = Inr clip_id"
    and "download_webpage h (''https://api.livestreamfails.com/clip/'' @ clip_id) = Inr body"
    and "json_loads h body = Inr (PDict kvs)"
    and "map_of kvs ''createdAt'' = Some (PStr created)"
    and "created \<noteq> []"
    and "strptime created = Inl e"
  shows "Livestreamfails_real_extract h url = Inl ValueError"
  using assms strptime_error[OF assms(6)]
  by (simp add: Livestreamfails_real_extract_def created_timestamp_def)

lemma NRKTV_nothing_found:
  assumes "mobj_group (re_match NRKTV_VALID_URL url) ''id'' = Inr video_id"
    and "mobj_group (re_match NRKTV_VALID_URL url) ''baseurl'' = Inr baseurl"
    and "download_webpage h url = Inr page"
    and "html_search_meta h [''description''] page = None"
    and "html_search_regex h (attr_rx ''data-posterimage'') page = None"
    and "html_search_regex h subtitlesurl_rx page = None"
    and "\<not> listsubtitles h"
  shows "NRKTV_real_extract h url =
           Inr (PDict
             [(''id'', PStr video_id),
              (''title'', opt_str (html_search_meta h [''title''] page)),
              (''description'', PNone),
              (''thumbnail'', PNone),
              (''upload_date'',
                 opt_str (unified_strdate h (opt_str (html_search_meta h [''rightsfrom''] page)))),
              (''duration'',
                 opt_float (float_or_none h
                   (opt_str (html_search_regex h (attr_rx ''data-duration'') page)))),
              (''formats'', PList (sort_formats (format_preference h) (nrktv_formats page))),
              (''subtitles'', PDict [])])"
  using assms by (simp add: NRKTV_real_extract_def Let_def opt_str_def)

lemma lsf_url_id: "match_id Livestreamfails_VALID_URL lsf_url = Inr ''139200''"
  by (simp add: match_id_def re_match_def mobj_group_def Livestreamfails_VALID_URL_def lsf_url_def is_digit_def)

lemmas strptime_defs =
  strptime_def strptime_rx_def one_of_def any_digit_def group_int_def
  py_int_def split_sign_def strip_def is_space_def is_digit_def nat_of_digits_def digit_val_def
  days_in_month_def isleap_def mdays_def

lemma test_timestamp:
  "strptime ''2022-06-26T19:29:45.515Z'' =
     Inr \<lparr>tm_year = 2022, tm_mon = 6, tm_mday = 26, tm_hour = 19, tm_min = 29, tm_sec = 45\<rparr>"
  by (simp add: strptime_defs)

lemma test_timegm:
  "timegm \<lparr>tm_year = 2022, tm_mon = 6, tm_mday = 26, tm_hour = 19, tm_min = 29, tm_sec = 45\<rparr>
     = 1656271785"
  by (simp add: timegm_def jan1_ordinal_def isleap_def mdays_def)

lemma no_fraction_rejected: "strptime ''2022-06-26T19:29:45Z'' = Inl ValueError"
  by (simp add: strptime_defs)

lemma offset_rejected: "strptime ''2022-06-26T19:29:45+00:00'' = Inl ValueError"
  by (simp add: strptime_defs)

lemma nrktv_url_groups:
  "mobj_group (re_match NRKTV_VALID_URL nrktv_url) ''id'' = Inr ''mdfp15000514''"
  "mobj_group (re_match NRKTV_VALID_URL nrktv_url) ''baseurl'' = Inr ''http://tv.nrk.no''"
  by (simp_all add: re_match_def mobj_group_def NRKTV_VALID_URL_def nrktv_url_def not_slash_def
      is_alpha_def is_lower_def is_digit_def)

lemma nrktv_page_searches:
  "search_regex (attr_rx ''data-posterimage'') ''<html></html>'' = None"
  "search_regex subtitlesurl_rx ''<html></html>'' = None"
  by (simp_all add: search_regex_def attr_rx_def subtitlesurl_rx_def re_match_def)

text \<open>
  C5, as amended. When the API response is an object whose \<open>videoId\<close> and \<open>imageId\<close>
  are strings, whose \<open>streamer\<close> is absent or an object, and whose \<open>createdAt\<close> is a
  string that \<open>strptime\<close> accepts in the format \<open>%Y-%m-%dT%H:%M:%S.%fZ\<close>, the extractor
  returns one record: its URL is the fixed CDN prefix followed by the \<open>videoId\<close>, its
  timestamp is \<open>timegm\<close> of the parsed fields, that is, the seconds since the epoch with
  the fields read as UTC.
\<close>

theorem clip_url_and_timestamp:
  assumes "match_id Livestreamfails_VALID_URL url = Inr clip_id"
    and "download_webpage h (''https://api.livestreamfails.com/clip/'' @ clip_id) = Inr body"
    and "json_loads h body = Inr (PDict kvs)"
    and "map_of kvs ''videoId'' = Some (PStr video)"
    and "map_of kvs ''imageId'' = Some (PStr image_id)"
    and "map_of kvs ''createdAt'' = Some (PStr created)"
    and "strptime created = Inr t"
    and "py_get_or_empty (PDict kvs) ''streamer'' = Inr (PDict streamer)"
  shows "Livestreamfails_real_extract h url =
             Inr (PDict [(''id'', PStr clip_id),
                         (''display_id'', get_or_none kvs ''sourceId''),
                         (''timestamp'', PInt (timegm t)),
                         (''url'', PStr (''https://livestreamfails-video-prod.b-cdn.net/video/'' @ video)),
                         (''title'', get_or_none kvs ''label''),
                         (''creator'', get_or_none streamer ''label''),
                         (''thumbnail'', PStr (image_prefix @ image_id))])"
  using clip_record [OF assms] by (simp add: video_prefix_def)

lemma lsf_host_fetch:
  "download_webpage (lsf_host r) u = Inr ''{clip}''"
  "json_loads (lsf_host r) s = Inr r"
  by (simp_all add: lsf_host_def offline_host_def)

text \<open>The response of the extractor's test: the timestamp is the 1656271785 that the
  test expects.\<close>

theorem clip_url_and_timestamp_witness:
  "Livestreamfails_real_extract (lsf_host (lsf_response ''2022-06-26T19:29:45.515Z'')) lsf_url =
     Inr (PDict [(''id'', PStr ''139200''),
                 (''display_id'', PStr ''ConcernedLitigiousSalmonPeteZaroll-O8yo9W2L8OZEKhV2''),
                 (''timestamp'', PInt 1656271785),
                 (''url'', PStr ''https://livestreamfails-video-prod.b-cdn.net/video/3877b1d3.mp4''),
                 (''title'', PStr ''Streamer jumps off a trampoline at full speed''),
                 (''creator'', PStr ''paradeev1ch''),
                 (''thumbnail'', PStr ''https://livestreamfails-image-prod.b-cdn.net/image/3877b1d3.png'')])"
proof -
  let ?c = "''2022-06-26T19:29:45.515Z''"
  let ?kvs = "[(''videoId'', PStr ''3877b1d3.mp4''),
            (''imageId'', PStr ''3877b1d3.png''),
            (''createdAt'', PStr ?c),
            (''label'', PStr ''Streamer jumps off a trampoline at full speed''),
            (''sourceId'', PStr ''ConcernedLitigiousSalmonPeteZaroll-O8yo9W2L8OZEKhV2''),
            (''streamer'', PDict [(''label'', PStr ''paradeev1ch'')])]"
  have j: "json_loads (lsf_host (lsf_response ?c)) ''{clip}'' = Inr (PDict ?kvs)"
    by (simp add: lsf_host_fetch lsf_response_def)
  have v: "map_of ?kvs ''videoId'' = Some (PStr ''3877b1d3.mp4'')"
    and i: "map_of ?kvs ''imageId'' = Some (PStr ''3877b1d3.png'')"
    and c: "map_of ?kvs ''createdAt'' = Some (PStr ?c)"
    and s: "py_get_or_empty (PDict ?kvs) ''streamer'' = Inr (PDict [(''label'', PStr ''paradeev1ch'')])"
    by simp_all
  show ?thesis
    using clip_url_and_timestamp [OF lsf_url_id lsf_host_fetch(1) j v i c test_timestamp s]
    by (simp add: test_timegm get_or_none_def image_prefix_def)
qed

text \<open>An ISO 8601 time with a UTC offset instead of \<open>Z\<close> and without a fraction is
  rejected: the extraction raises ValueError and returns no record.\<close>

theorem offset_timestamp_rejected:
  "Livestreamfails_real_extract (lsf_host (lsf_response ''2022-06-26T19:29:45+00:00'')) lsf_url
     = Inl ValueError"
  by (simp add: Livestreamfails_real_extract_def lsf_url_id lsf_host_fetch lsf_response_def
      created_timestamp_def offset_rejected)

text \<open>
  C4, as amended. \<open>NRKTVIE\<close>: when the description, the poster image and the subtitle
  URL are not found on the page, the record is returned with \<open>description\<close> and
  \<open>thumbnail\<close> \<open>None\<close> and no subtitles, and the date and duration are whatever the
  host's parsers make of what was found. \<open>LivestreamfailsIE\<close>: when \<open>createdAt\<close>,
  \<open>sourceId\<close>, \<open>label\<close> and \<open>streamer\<close> are absent (and \<open>videoId\<close> and \<open>imageId\<close> are
  strings), the record is returned with \<open>timestamp\<close>, \<open>display_id\<close>, \<open>title\<close> and
  \<open>creator\<close> \<open>None\<close>; but a non-empty \<open>createdAt\<close> string that \<open>strptime\<close> rejects
  aborts the extraction with ValueError.
\<close>

theorem optional_fields_degrade:
  "(mobj_group (re_match NRKTV_VALID_URL url) ''id'' = Inr video_id \<and>
    mobj_group (re_match NRKTV_VALID_URL url) ''baseurl'' = Inr baseurl \<and>
    download_webpage h url = Inr page \<and>
    html_search_meta h [''description''] page = None \<and>
    html_search_regex h (attr_rx ''data-posterimage'') page = None \<and>
    html_search_regex h subtitlesurl_rx page = None \<and>
    \<not> listsubtitles h \<longrightarrow>
    NRKTV_real_extract h url =
      Inr (PDict
        [(''id'', PStr video_id),
         (''title'', opt_str (html_search_meta h [''title''] page)),
         (''description'', PNone),
         (''thumbnail'', PNone),
         (''upload_date'',
            opt_str (unified_strdate h (opt_str (html_search_meta h [''rightsfrom''] page)))),
         (''duration'',
            opt_float (float_or_none h
              (opt_str (html_search_regex h (attr_rx ''data-duration'') page)))),
         (''formats'', PList (sort_formats (format_preference h) (nrktv_formats page))),
         (''subtitles'', PDict [])])) \<and>
   (match_id Livestreamfails_VALID_URL clip_url = Inr clip_id \<and>
    download_webpage hl (''https://api.livestreamfails.com/clip/'' @ clip_id) = Inr body \<and>
    json_loads hl body = Inr (PDict kvs) \<and>
    map_of kvs ''videoId'' = Some (PStr video) \<and>
    map_of kvs ''imageId'' = Some (PStr image_id) \<and>
    map_of kvs ''createdAt'' = None \<and> map_of kvs ''sourceId'' = None \<and>
    map_of kvs ''label'' = None \<and> map_of kvs ''streamer'' = None \<longrightarrow>
    Livestreamfails_real_extract hl clip_url =
      Inr (PDict [(''id'', PStr clip_id),
                  (''display_id'', PNone),
                  (''timestamp'', PNone),
                  (''url'', PStr (video_prefix @ video)),
                  (''title'', PNone),
                  (''creator'', PNone),
                  (''thumbnail'', PStr (image_prefix @ image_id))])) \<and>
   (match_id Livestreamfails_VALID_URL bad_url = Inr bad_id \<and>
    download_webpage hb (''https://api.livestreamfails.com/clip/'' @ bad_id) = Inr bad_body \<and>
    json_loads hb bad_body = Inr (PDict bad_kvs) \<and>
    map_of bad_kvs ''createdAt'' = Some (PStr created) \<and>
    created \<noteq> [] \<and>
    strptime created = Inl e \<longrightarrow>
    Livestreamfails_real_extract hb bad_url = Inl ValueError)"
  using NRKTV_nothing_found [of url video_id baseurl h page]
    clip_without_optional_fields [of clip_url clip_id hl body kvs video image_id]
    clip_bad_timestamp [of bad_url bad_id hb bad_body bad_kvs created e]
  by blast

theorem optional_fields_degrade_witness:
  "NRKTV_real_extract nrktv_host nrktv_url =
     Inr (PDict [(''id'', PStr ''mdfp15000514''), (''title'', PNone), (''description'', PNone),
                 (''thumbnail'', PNone), (''upload_date'', PNone), (''duration'', PNone),
                 (''formats'', PList []), (''subtitles'', PDict [])]) \<and>
   Livestreamfails_real_extract (lsf_host lsf_minimal_response) lsf_url =
     Inr (PDict [(''id'', PStr ''139200''), (''display_id'', PNone), (''timestamp'', PNone),
                 (''url'', PStr (video_prefix @ ''3877b1d3.mp4'')), (''title'', PNone),
                 (''creator'', PNone), (''thumbnail'', PStr (image_prefix @ ''3877b1d3.png''))]) \<and>
   Livestreamfails_real_extract (lsf_host (lsf_response ''26 June 2022'')) lsf_url = Inl ValueError"
proof -
  let ?kvs = "[(''videoId'', PStr ''3877b1d3.mp4''), (''imageId'', PStr ''3877b1d3.png'')]"
  let ?bad = "[(''videoId'', PStr ''3877b1d3.mp4''),
            (''imageId'', PStr ''3877b1d3.png''),
            (''createdAt'', PStr ''26 June 2022''),
            (''label'', PStr ''Streamer jumps off a trampoline at full speed''),
            (''sourceId'', PStr ''ConcernedLitigiousSalmonPeteZaroll-O8yo9W2L8OZEKhV2''),
            (''streamer'', PDict [(''label'', PStr ''paradeev1ch'')])]"
  have n1: "download_webpage nrktv_host nrktv_url = Inr ''<html></html>''"
    and n2: "html_search_meta nrktv_host [''description''] ''<html></html>'' = None"
    and n3: "html_search_regex nrktv_host (attr_rx ''data-posterimage'') ''<html></html>'' = None"
    and n4: "html_search_regex nrktv_host subtitlesurl_rx ''<html></html>'' = None"
    and n5: "\<not> listsubtitles nrktv_host"
    by (simp_all add: nrktv_host_def offline_host_def html_search_regex_def nrktv_page_searches)
  have n6: "html_search_meta nrktv_host [''title''] ''<html></html>'' = None"
    "html_search_meta nrktv_host [''rightsfrom''] ''<html></html>'' = None"
    "unified_strdate nrktv_host PNone = None"
    "float_or_none nrktv_host PNone = None"
    "html_search_regex nrktv_host (attr_rx ''data-duration'') ''<html></html>'' = None"
    "nrktv_formats ''<html></html>'' = []"
    by (simp_all add: nrktv_host_def offline_host_def html_search_regex_def nrktv_formats_def
        search_regex_def attr_rx_def re_match_def)
  have l1: "json_loads (lsf_host lsf_minimal_response) ''{clip}'' = Inr (PDict ?kvs)"
    by (simp add: lsf_host_fetch lsf_minimal_response_def)
  have l2: "map_of ?kvs ''videoId'' = Some (PStr ''3877b1d3.mp4'')"
    "map_of ?kvs ''imageId'' = Some (PStr ''3877b1d3.png'')"
    "map_of ?kvs ''createdAt'' = None" "map_of ?kvs ''sourceId'' = None"
    "map_of ?kvs ''label'' = None" "map_of ?kvs ''streamer'' = None"
    by simp_all
  have b1: "json_loads (lsf_host (lsf_response ''26 June 2022'')) ''{clip}'' = Inr (PDict ?bad)"
    by (simp add: lsf_host_fetch lsf_response_def)
  have b2: "map_of ?bad ''createdAt'' = Some (PStr ''26 June 2022'')" "''26 June 2022'' \<noteq> []"
    by simp_all
  have b3: "strptime ''26 June 2022'' = Inl ValueError"
    by (simp add: strptime_defs)
  show ?thesis
    using optional_fields_degrade [where url = nrktv_url and video_id = "''mdfp15000514''"
        and baseurl = "''http://tv.nrk.no''" and h = nrktv_host and page = "''<html></html>''"
        and clip_url = lsf_url and clip_id = "''139200''" and hl = "lsf_host lsf_minimal_response"
        and body = "''{clip}''" and kvs = ?kvs and video = "''3877b1d3.mp4''"
        and image_id = "''3877b1d3.png''" and bad_url = lsf_url and bad_id = "''139200''"
        and hb = "lsf_host (lsf_response ''26 June 2022'')" and bad_body = "''{clip}''"
        and bad_kvs = ?bad and created = "''26 June 2022''" and e = ValueError]
      nrktv_url_groups n1 n2 n3 n4 n5 lsf_url_id lsf_host_fetch l1 l2 b1 b2 b3
    by (simp add: n6 opt_str_def opt_float_def sort_formats_def)
qed

text \<open>A creation time without the fraction of a second, which is valid ISO 8601, is an
  optional timestamp that fails to parse: the extraction raises ValueError instead of
  returning a record without a timestamp.\<close>

theorem unparsed_timestamp_aborts:
  "Livestreamfails_real_extract (lsf_host (lsf_response ''2022-06-26T19:29:45Z'')) lsf_url
     = Inl ValueError"
  by (simp add: Livestreamfails_real_extract_def lsf_url_id lsf_host_fetch lsf_response_def
      created_timestamp_def no_fraction_rejected)

subsection \<open>The order of the formats\<close>

lemma mset_eq_of_key_filters:
  assumes "\<And>k. filter (\<lambda>x. f x = k) ys = filter (\<lambda>x. f x = k) xs"
  shows "mset ys = mset xs"
proof (rule multiset_eqI)
  fix x
  have "count (mset ys) x = count (mset (filter (\<lambda>y. f y = f x) ys)) x"
    by simp
  also have "\<dots> = count (mset (filter (\<lambda>y. f y = f x) xs)) x"
    using assms by simp
  also have "\<dots> = count (mset xs) x"
    by simp
  finally show "count (mset ys) x = count (mset xs) x" .
qed

lemma sort_key_unique:
  assumes "sorted (map f ys)"
    and "\<And>k. filter (\<lambda>x. f x = k) ys = filter (\<lambda>x. f x = k) xs"
  shows "sort_key f xs = ys"
proof (rule properties_for_sort_key)
  show "mset ys = mset xs"
    using assms(2) by (rule mset_eq_of_key_filters)
  show "sorted (map f ys)"
    by fact
  fix k
  have "filter (\<lambda>x. f k = f x) ys = filter (\<lambda>x. f x = f k) ys"
    by (rule filter_cong) auto
  also have "\<dots> = filter (\<lambda>x. f x = f k) xs"
    using assms(2) .
  also have "\<dots> = filter (\<lambda>x. f k = f x) xs"
    by (rule filter_cong) auto
  finally show "filter (\<lambda>x. f k = f x) ys = filter (\<lambda>x. f k = f x) xs" .
qed

lemma settings_formats_sorted:
  assumes "settings_formats h settings = Inr out"
  shows "sorted (map (format_key (format_preference h)) out)"
proof -
  from assms obtain cands where "out = sort_formats (format_preference h) cands"
    by (auto simp: settings_formats_def and_then_eq_Inr)
  then show ?thesis
    by (simp add: sort_formats_def)
qed

text \<open>
  C7. The sorted format list is determined by its input: a list is the output of the
  sort for the candidates \<open>fs\<close> exactly when its keys ascend (resolution and bitrate
  first, the format preference second) and, for every key, its candidates with that key
  are those of \<open>fs\<close> in their input order. So two runs on the same candidates give the
  same list, in the same order. The format list that the Apple Trailers extractor builds
  from a settings document is such an output.
\<close>

theorem sorted_formats_determined:
  "(ys = sort_formats pref fs \<longleftrightarrow>
      sorted (map (format_key pref) ys) \<and>
      (\<forall>k. filter (\<lambda>f. format_key pref f = k) ys = filter (\<lambda>f. format_key pref f = k) fs)) \<and>
   (settings_formats h settings = Inr out \<longrightarrow>
      sorted (map (format_key (format_preference h)) out))"
proof (intro conjI impI iffI)
  assume "ys = sort_formats pref fs"
  then show "sorted (map (format_key pref) ys)"
    by (simp add: sort_formats_def)
next
  assume "ys = sort_formats pref fs"
  then show "\<forall>k. filter (\<lambda>f. format_key pref f = k) ys = filter (\<lambda>f. format_key pref f = k) fs"
    by (simp add: sort_formats_def sort_key_stable)
next
  assume a: "sorted (map (format_key pref) ys) \<and>
     (\<forall>k. filter (\<lambda>f. format_key pref f = k) ys = filter (\<lambda>f. format_key pref f = k) fs)"
  have "sort_key (format_key pref) fs = ys"
    using a by (intro sort_key_unique) auto
  then show "ys = sort_formats pref fs"
    by (simp add: sort_formats_def)
next
  assume "settings_formats h settings = Inr out"
  then show "sorted (map (format_key (format_preference h)) out)"
    by (rule settings_formats_sorted)
qed

lemma example_keys:
  "format_key (\<lambda>f. 0) format_720 = ((720, 1280, - 1), 0)"
  "format_key (\<lambda>f. 0) format_480 = ((480, 848, - 1), 0)"
  "format_key (\<lambda>f. 0) format_480_alt = ((480, 848, - 1), 0)"
  by (simp_all add: format_key_def num_field_def format_720_def format_480_def format_480_alt_def)

lemma example_urls:
  "real_video_url ''http://x/a_720p.mov'' = ''http://x/a_h720p.mov''"
  "real_video_url ''http://x/a_480p.mov'' = ''http://x/a_h480p.mov''"
  by (simp_all add: real_video_url_def size_src_rx_def group_text_def is_digit_def not_newline_def)

lemma example_settings_formats:
  "settings_formats offline_host example_settings =
     Inr [PDict [(''url'', PStr ''http://x/a_h480p.mov''), (''format'', PStr ''video/quicktime''),
                 (''width'', PInt 848), (''height'', PInt 480)],
          PDict [(''url'', PStr ''http://x/a_h720p.mov''), (''format'', PStr ''video/quicktime''),
                 (''width'', PInt 1280), (''height'', PInt 720)]]"
  by (simp add: settings_formats_def example_settings_def size_format_def example_urls
      offline_host_def opt_int_def sort_formats_def format_key_def num_field_def
      less_eq_prod_def less_prod_def)

theorem sorted_formats_determined_witness:
  "sort_formats (\<lambda>f. 0) [format_720, format_480, format_480_alt]
     = [format_480, format_480_alt, format_720] \<and>
   sorted (map (format_key (\<lambda>f. 0)) [format_480, format_480_alt, format_720]) \<and>
   filter (\<lambda>f. format_key (\<lambda>f. 0) f = ((480, 848, - 1), 0)) [format_480, format_480_alt, format_720]
     = [format_480, format_480_alt] \<and>
   sorted (map (format_key (format_preference offline_host))
     [PDict [(''url'', PStr ''http://x/a_h480p.mov''), (''format'', PStr ''video/quicktime''),
             (''width'', PInt 848), (''height'', PInt 480)],
      PDict [(''url'', PStr ''http://x/a_h720p.mov''), (''format'', PStr ''video/quicktime''),
             (''width'', PInt 1280), (''height'', PInt 720)]])"
proof -
  let ?ys = "[format_480, format_480_alt, format_720]"
  let ?fs = "[format_720, format_480, format_480_alt]"
  let ?out = "[PDict [(''url'', PStr ''http://x/a_h480p.mov''), (''format'', PStr ''video/quicktime''),
             (''width'', PInt 848), (''height'', PInt 480)],
      PDict [(''url'', PStr ''http://x/a_h720p.mov''), (''format'', PStr ''video/quicktime''),
             (''width'', PInt 1280), (''height'', PInt 720)]]"
  note inst = sorted_formats_determined [of ?ys "\<lambda>f. 0" ?fs offline_host example_settings ?out]
  have s: "sort_formats (\<lambda>f. 0) ?fs = ?ys"
    by (simp add: sort_formats_def example_keys less_eq_prod_def less_prod_def)
  have a: "sorted (map (format_key (\<lambda>f. 0)) ?ys)"
    and b: "filter (\<lambda>f. format_key (\<lambda>f. 0) f = ((480, 848, - 1), 0)) ?ys
          = filter (\<lambda>f. format_key (\<lambda>f. 0) f = ((480, 848, - 1), 0)) ?fs"
    using inst s by metis+
  have c: "filter (\<lambda>f. format_key (\<lambda>f. 0) f = ((480, 848, - 1), 0)) ?fs = [format_480, format_480_alt]"
    by (simp add: example_keys)
  have d: "sorted (map (format_key (format_preference offline_host)) ?out)"
    using inst example_settings_formats by blast
  show ?thesis
    using s a b c d by simp
qed

subsection \<open>The candidate ids of \<open>RaiIE\<close>\<close>

lemma try_content_ids_find:
  "try_content_ids extract ids =
     (case find (\<lambda>i. \<not> passed_over (extract i)) ids of
        None \<Rightarrow> None
      | Some i \<Rightarrow> Some (extract i))"
proof (induction ids)
  case Nil
  show ?case by simp
next
  case (Cons i ids)
  show ?case
  proof (cases "extract i")
    case (Inl e)
    then show ?thesis using Cons by simp
  next
    case (Inr info)
    then show ?thesis by simp
  qed
qed

lemma content_item_ids_cases:
  "content_item_ids c video_id =
     (case c of
        None \<Rightarrow> [video_id]
      | Some i \<Rightarrow> if i = [] \<or> i = video_id then [video_id] else [i, video_id])"
  by (auto simp: content_item_ids_def opt_str_def split: option.splits)

lemma rai_url_id: "match_id Rai_VALID_URL rai_url = Inr ''04a9f4bd-b563-40cf-82a6-aad3529cb4a9''"
  by (simp add: match_id_def re_match_def mobj_group_def Rai_VALID_URL_def UUID_RE_def rai_url_def
      not_slash_def not_newline_def is_hex_lower_def is_digit_def)

lemma rai_page_item:
  "search_regex content_item_rx ''http://www.rai.it/dl/ContentItem-efb17665-691c-45d5-a60c-5301333cbb0c.html''
     = Some ''efb17665-691c-45d5-a60c-5301333cbb0c''"
  by (simp add: search_regex_def re_match_def content_item_rx_def UUID_RE_def is_hex_lower_def is_digit_def)

lemma rai_host_fields:
  "download_webpage (rai_host first) u = Inr ''<html></html>''"
  "html_search_meta (rai_host first) names page =
     Some ''http://www.rai.it/dl/ContentItem-efb17665-691c-45d5-a60c-5301333cbb0c.html''"
  "download_xml (rai_host first) u p = Inr geo_relinker"
  "set_iter (rai_host first) ids = ids"
  "download_json (rai_host first)
     ''http://www.rai.tv/dl/RaiTV/programmi/media/ContentItem-efb17665-691c-45d5-a60c-5301333cbb0c.html?json''
     = first"
  "download_json (rai_host first)
     ''http://www.rai.tv/dl/RaiTV/programmi/media/ContentItem-04a9f4bd-b563-40cf-82a6-aad3529cb4a9.html?json''
     = Inr (rai_media ''mms://mediapolis.rai.it/tg1.wmv'')"
  by (simp_all add: rai_host_def offline_host_def)

lemma rai_host_helpers:
  "format_preference (rai_host first) = (\<lambda>f. 0)"
  "strip_or_none (rai_host first) v = v"
  "unified_strdate (rai_host first) v = None"
  "parse_duration (rai_host first) v = None"
  by (simp_all add: rai_host_def offline_host_def)

lemma rai_candidates:
  "content_item_ids (find_content_item_id (rai_host first) ''<html></html>'')
     ''04a9f4bd-b563-40cf-82a6-aad3529cb4a9''
   = [''efb17665-691c-45d5-a60c-5301333cbb0c'', ''04a9f4bd-b563-40cf-82a6-aad3529cb4a9'']"
  by (simp add: find_content_item_id_def rai_host_fields rai_page_item content_item_ids_cases
      opt_str_def Let_def)

lemma rai_direct_candidate:
  "extract_from_content_id (rai_host first) ''04a9f4bd-b563-40cf-82a6-aad3529cb4a9'' rai_url
     = Inr rai_direct_info"
  by (simp add: extract_from_content_id_def rai_host_fields rai_host_helpers rai_media_def
      strip_def is_space_def media_relinker_info_def extract_relinker_info_def is_http_url_def
      sort_info_formats_def sort_formats_def media_thumbnail_def extract_subtitles_def
      dict_update_def opt_str_def opt_float_def rai_direct_info_def)

lemma rai_geo_candidate:
  "extract_from_content_id (rai_host geo_first) ''efb17665-691c-45d5-a60c-5301333cbb0c'' rai_url
     = Inl (GeoRestrictedError [''IT''])"
  by (simp add: extract_from_content_id_def rai_host_fields geo_first_def rai_media_def
      strip_def is_space_def media_relinker_info_def extract_relinker_info_def is_http_url_def
      platforms_def relinker_init_def relinker_platform_def relinker_flags_def
      relinker_formats_def geo_relinker_def not_flag_def not_duration_def opt_str_def
      raise_geo_restricted_def GEO_COUNTRIES_def rai_host_helpers)

lemma rai_missing_candidate:
  "extract_from_content_id (rai_host missing_first) ''efb17665-691c-45d5-a60c-5301333cbb0c'' rai_url
     = Inl (ExtractorError ''HTTP Error 404'')"
  by (simp add: extract_from_content_id_def rai_host_fields missing_first_def)

text \<open>
  C8, as amended. The candidates are the content item id found on the page, if any, and
  the id of the URL unless it is the same string. They are tried in the order in which
  the set holding them is iterated, which is the host's and need not be the order of
  discovery. The extractor returns the outcome of the first candidate, in that order,
  whose outcome is not passed over: the record when it succeeds, the exception when it
  raises the geo-restriction error or an exception that is no \<open>ExtractorError\<close>. The
  search of the page for a relinker URL is reached only when every candidate was passed
  over.
\<close>

theorem candidates_in_set_order:
  assumes "match_id Rai_VALID_URL url = Inr video_id"
    and "download_webpage h url = Inr webpage"
  shows "Rai_real_extract h url =
           (case find (\<lambda>i. \<not> passed_over (extract_from_content_id h i url))
                   (set_iter h (content_item_ids (find_content_item_id h webpage) video_id)) of
              None \<Rightarrow> extract_from_page h url video_id webpage
            | Some i \<Rightarrow> extract_from_content_id h i url) \<and>
         content_item_ids c video_id =
           (case c of
              None \<Rightarrow> [video_id]
            | Some i \<Rightarrow> if i = [] \<or> i = video_id then [video_id] else [i, video_id])"
  using assms
  by (simp add: Rai_real_extract_def try_content_ids_find content_item_ids_cases
      split: option.splits)

text \<open>The page's content item is missing on the server (a plain \<open>ExtractorError\<close>), the
  URL's id succeeds: its record is returned.\<close>

theorem candidates_in_set_order_witness:
  "Rai_real_extract (rai_host missing_first) rai_url = Inr rai_direct_info"
  using candidates_in_set_order [OF rai_url_id rai_host_fields(1) [of missing_first rai_url]]
  by (simp add: rai_candidates rai_host_fields rai_missing_candidate rai_direct_candidate)

text \<open>
  The page's content item is geo-restricted, the URL's id would succeed: the extractor
  raises the geo-restriction error of the first candidate and does not try the second.
\<close>

theorem geo_error_ends_candidates:
  "Rai_real_extract (rai_host geo_first) rai_url = Inl (GeoRestrictedError [''IT'']) \<and>
   extract_from_content_id (rai_host geo_first) ''04a9f4bd-b563-40cf-82a6-aad3529cb4a9'' rai_url
     = Inr rai_direct_info"
  by (simp add: Rai_real_extract_def rai_url_id rai_host_fields rai_candidates
      rai_geo_candidate rai_direct_candidate)

end
